theory Spec2Isabelle
  imports Main "HOL-Library.Word"
begin

unbundle bit_operations_syntax

section \<open>Common data\<close>

text \<open>
  Go's \<^verbatim>\<open>[]byte\<close> and \<^verbatim>\<open>string\<close> are both byte sequences; both are modelled as
  \<^typ>\<open>char list\<close> (an Isabelle \<^typ>\<open>char\<close> is one byte).
\<close>

type_synonym bytes = "char list"

text \<open>
  Go \<^verbatim>\<open>error\<close> values. \<open>errFetchManifest\<close> is the struct of the registry source;
  \<open>Errorf\<close> is an error made by \<^verbatim>\<open>fmt.Errorf\<close> or \<^verbatim>\<open>errors.New\<close>, carrying its
  formatted message; \<open>ExternalError\<close> is an error handed back by a library or system
  call outside the repository (the I/O layer, the HTTP client, the JSON codec).
\<close>

datatype error =
    errFetchManifest int bytes
  | Errorf string
  | ExternalError string

section \<open>Manifest media types\<close>

text \<open>
  The media type constants of package \<^verbatim>\<open>manifest\<close> are declared outside the files at
  hand. Their values are the entries of the spec's list of recognized manifest MIME types.
  The OCI destination and the registry source spell three of them \<^verbatim>\<open>...MIMEType\<close>.
\<close>

text \<open>Modelled from the spec: \<^verbatim>\<open>manifest.DockerV2Schema1MediaType\<close>, the unsigned schema-1 type.\<close>

definition DockerV2Schema1MediaType :: string where
  "DockerV2Schema1MediaType = ''application/vnd.docker.distribution.manifest.v1+json''"

text \<open>Modelled from the spec: \<^verbatim>\<open>manifest.DockerV2Schema1SignedMediaType\<close>, the signed schema-1 type.\<close>

definition DockerV2Schema1SignedMediaType :: string where
  "DockerV2Schema1SignedMediaType = ''application/vnd.docker.distribution.manifest.v1+prettyjws''"

text \<open>Modelled from the spec: \<^verbatim>\<open>manifest.DockerV2Schema2MediaType\<close>, the schema-2 type.\<close>

definition DockerV2Schema2MediaType :: string where
  "DockerV2Schema2MediaType = ''application/vnd.docker.distribution.manifest.v2+json''"

text \<open>Modelled from the spec: \<^verbatim>\<open>manifest.DockerV2ListMediaType\<close>, the schema-2 manifest list type.\<close>

definition DockerV2ListMediaType :: string where
  "DockerV2ListMediaType = ''application/vnd.docker.distribution.manifest.list.v2+json''"

text \<open>The same constants under the names the OCI destination and the registry source use.\<close>

definition DockerV2Schema1MIMEType :: string where
  "DockerV2Schema1MIMEType = DockerV2Schema1MediaType"

definition DockerV2Schema2MIMEType :: string where
  "DockerV2Schema2MIMEType = DockerV2Schema2MediaType"

definition DockerV2ListMIMEType :: string where
  "DockerV2ListMIMEType = DockerV2ListMediaType"

text \<open>
  The media types of the OCI image specification (package \<^verbatim>\<open>imgspecv1\<close>, a library
  outside the repository).
\<close>

definition MediaTypeImageManifest :: string where
  "MediaTypeImageManifest = ''application/vnd.oci.image.manifest.v1+json''"

definition MediaTypeImageManifestList :: string where
  "MediaTypeImageManifestList = ''application/vnd.oci.image.manifest.list.v1+json''"

definition MediaTypeImageSerialization :: string where
  "MediaTypeImageSerialization = ''application/vnd.oci.image.serialization.rootfs.tar.gzip''"

definition MediaTypeImageSerializationConfig :: string where
  "MediaTypeImageSerializationConfig = ''application/vnd.oci.image.serialization.config.v1+json''"

section \<open>Package image: dispatch on the manifest media type\<close>

text \<open>
  \<^verbatim>\<open>manifestInstanceFromBlob\<close> (image/manifest.go) switches on the media type and hands the
  blob to one of three constructors. The constructors live in other files of the package;
  they are parameters of the model, collected in a record. \<open>'src\<close> is the image source,
  \<open>'m\<close> the \<^verbatim>\<open>genericManifest\<close> they build.
\<close>

record ('src, 'm) constructors =
  manifestSchema1FromManifest :: "bytes \<Rightarrow> error + 'm"
  manifestSchema2FromManifest :: "'src \<Rightarrow> bytes \<Rightarrow> error + 'm"
  manifestSchema2FromManifestList :: "'src \<Rightarrow> bytes \<Rightarrow> error + 'm"

definition manifestInstanceFromBlob ::
  "('src, 'm) constructors \<Rightarrow> 'src \<Rightarrow> bytes \<Rightarrow> string \<Rightarrow> error + 'm" where
  "manifestInstanceFromBlob K src manblob mt =
     (if mt = DockerV2Schema1MediaType \<or> mt = DockerV2Schema1SignedMediaType
         \<or> mt = ''application/json''
      then manifestSchema1FromManifest K manblob
      else if mt = DockerV2Schema2MediaType then manifestSchema2FromManifest K src manblob
      else if mt = DockerV2ListMediaType then manifestSchema2FromManifestList K src manblob
      else if mt = '''' then Inl (Errorf ''could not guess manifest media type'')
      else Inl (Errorf (''unsupported manifest media type '' @ mt)))"

text \<open>The media types that have a case of their own in the switch.\<close>

definition dispatched :: "string list" where
  "dispatched = [DockerV2Schema1MediaType, DockerV2Schema1SignedMediaType, ''application/json'',
     DockerV2Schema2MediaType, DockerV2ListMediaType]"

text \<open>
  A triple of constructors that accepts every blob and records which constructor was
  called: the best case for the dispatch, used to run it on concrete inputs.
\<close>

datatype variant = Schema1 bytes | Schema2 bytes | Schema2List bytes

definition accepting :: "(unit, variant) constructors" where
  "accepting = \<lparr> manifestSchema1FromManifest = (\<lambda>b. Inr (Schema1 b)),
                 manifestSchema2FromManifest = (\<lambda>_ b. Inr (Schema2 b)),
                 manifestSchema2FromManifestList = (\<lambda>_ b. Inr (Schema2List b)) \<rparr>"

section \<open>Streams and the standard library\<close>

text \<open>
  An \<^verbatim>\<open>io.Reader\<close> is the sequence of its reads: \<open>Data p r\<close> yields the bytes \<open>p\<close> and
  continues as \<open>r\<close>, \<open>EOF\<close> ends the stream, \<open>Fail e\<close> is a read that returns the
  error \<open>e\<close>. \<^verbatim>\<open>ioutil.ReadAll\<close> collects the bytes up to \<open>EOF\<close> or fails with the
  stream's error.
\<close>

datatype reader = Data bytes reader | EOF | Fail error

fun ReadAll :: "reader \<Rightarrow> error + bytes" where
  "ReadAll EOF = Inr []"
| "ReadAll (Fail e) = Inl e"
| "ReadAll (Data p r) = (case ReadAll r of Inl e \<Rightarrow> Inl e | Inr b \<Rightarrow> Inr (p @ b))"

text \<open>The part of \<^verbatim>\<open>http.Response\<close> the registry source reads.\<close>

record response =
  StatusCode :: int
  Header :: "string \<rightharpoonup> string list"
  Body :: reader

definition Header_Get :: "(string \<rightharpoonup> string list) \<Rightarrow> string \<Rightarrow> string" where
  "Header_Get h key = (case h key of None \<Rightarrow> '''' | Some [] \<Rightarrow> '''' | Some (v # _) \<Rightarrow> v)"

text \<open>
  \<^verbatim>\<open>strconv.ParseInt(s, 10, 64)\<close>: an optional sign, then \<^verbatim>\<open>ParseUint\<close>'s loop over
  decimal digits, which stops with a syntax error at the first other byte and with a range
  error as soon as the value leaves 64 bits; then the check against the signed range.
\<close>

definition isDigit :: "char \<Rightarrow> bool" where
  "isDigit d = (48 \<le> (of_char d :: nat) \<and> (of_char d :: nat) \<le> 57)"

definition digitVal :: "char \<Rightarrow> nat" where
  "digitVal d = of_char d - 48"

datatype NumError = ErrSyntax | ErrRange

fun ParseUint_digits :: "nat \<Rightarrow> string \<Rightarrow> NumError + nat" where
  "ParseUint_digits n [] = Inr n"
| "ParseUint_digits n (d # s) =
     (if \<not> isDigit d then Inl ErrSyntax
      else if n * 10 + digitVal d \<ge> 2 ^ 64 then Inl ErrRange
      else ParseUint_digits (n * 10 + digitVal d) s)"

definition ParseUint :: "string \<Rightarrow> NumError + nat" where
  "ParseUint s = (if s = [] then Inl ErrSyntax else ParseUint_digits 0 s)"

definition ParseInt :: "string \<Rightarrow> NumError + int" where
  "ParseInt s0 =
     (if s0 = [] then Inl ErrSyntax
      else let neg = (hd s0 = CHR ''-'');
               s = (if hd s0 = CHR ''+'' \<or> hd s0 = CHR ''-'' then tl s0 else s0)
           in case ParseUint s of
                Inl e \<Rightarrow> Inl e
              | Inr un \<Rightarrow>
                  if \<not> neg \<and> un \<ge> 2 ^ 63 then Inl ErrRange
                  else if neg \<and> un > 2 ^ 63 then Inl ErrRange
                  else Inr (if neg then - int un else int un))"

text \<open>The \<^verbatim>\<open>%d\<close> verb of \<^verbatim>\<open>fmt\<close> (\<^verbatim>\<open>strconv.Itoa\<close>).\<close>

definition digitChar :: "nat \<Rightarrow> char" where
  "digitChar n = ''0123456789'' ! n"

fun utoa :: "nat \<Rightarrow> string" where
  "utoa n = (if n < 10 then [digitChar n] else utoa (n div 10) @ [digitChar (n mod 10)])"

declare utoa.simps [simp del]

definition Itoa :: "int \<Rightarrow> string" where
  "Itoa i = (if i < 0 then CHR ''-'' # utoa (nat (- i)) else utoa (nat i))"

section \<open>Registry source\<close>

text \<open>
  Modelled from the spec: the URL template \<^verbatim>\<open>manifestURL\<close> is a constant of the registry
  client, outside the files at hand; the spec gives the path
  \<^verbatim>\<open>/v2/<repository>/manifests/<reference>\<close> (the client prepends the base URL).
\<close>

definition manifestURL :: "string \<Rightarrow> string \<Rightarrow> string" where
  "manifestURL repo reference = repo @ ''/manifests/'' @ reference"

text \<open>
  Modelled from the spec: the URL template \<^verbatim>\<open>blobsURL\<close>, likewise; the spec gives the path
  \<^verbatim>\<open>/v2/<repository>/blobs/<digest>\<close>.
\<close>

definition blobsURL :: "string \<Rightarrow> string \<Rightarrow> string" where
  "blobsURL repo digest = repo @ ''/blobs/'' @ digest"

text \<open>
  The client's \<^verbatim>\<open>makeRequest(method, url, headers, stream)\<close> is outside the files at hand:
  it is a field of the client, and every theorem holds for any client. The source carries
  the repository name (\<^verbatim>\<open>s.ref.RemoteName()\<close>), the tag and the client.
\<close>

record dockerClient =
  makeRequest :: "string \<Rightarrow> string \<Rightarrow> (string \<rightharpoonup> string list) \<Rightarrow> error + response"

record dockerImageSource =
  remoteName :: string
  docker_tag :: string
  docker_c :: dockerClient

definition GetManifest :: "dockerImageSource \<Rightarrow> string list \<Rightarrow> error + bytes \<times> string" where
  "GetManifest s mimetypes =
     (let url = manifestURL (remoteName s) (docker_tag s);
          headers = [''Accept'' \<mapsto> mimetypes]
      in case makeRequest (docker_c s) ''GET'' url headers of
           Inl err \<Rightarrow> Inl err
         | Inr res \<Rightarrow>
             (case ReadAll (Body res) of
                Inl err \<Rightarrow> Inl err
              | Inr manblob \<Rightarrow>
                  if StatusCode res \<noteq> 200 then Inl (errFetchManifest (StatusCode res) manblob)
                  else Inr (manblob, Header_Get (Header res) ''Content-Type'')))"

definition GetBlob :: "dockerImageSource \<Rightarrow> string \<Rightarrow> error + reader \<times> int" where
  "GetBlob s digest =
     (let url = blobsURL (remoteName s) digest
      in case makeRequest (docker_c s) ''GET'' url Map.empty of
           Inl err \<Rightarrow> Inl err
         | Inr res \<Rightarrow>
             if StatusCode res \<noteq> 200
             then Inl (Errorf (''Invalid status code returned when fetching blob '' @ Itoa (StatusCode res)))
             else Inr (Body res,
                       case ParseInt (Header_Get (Header res) ''Content-Length'') of
                         Inl err \<Rightarrow> 0
                       | Inr n \<Rightarrow> n))"

definition GetSignatures :: "dockerImageSource \<Rightarrow> error + bytes list" where
  "GetSignatures s = Inr []"

text \<open>A client that answers every request with the given response, and a source using it.\<close>

definition answering :: "response \<Rightarrow> dockerClient" where
  "answering res = \<lparr> makeRequest = (\<lambda>method url headers. Inr res) \<rparr>"

definition busybox :: "response \<Rightarrow> dockerImageSource" where
  "busybox res = \<lparr> remoteName = ''library/busybox'', docker_tag = ''latest'', docker_c = answering res \<rparr>"

section \<open>File system\<close>

text \<open>
  A path is the list of its components (\<^verbatim>\<open>filepath.Join\<close> appends, \<^verbatim>\<open>filepath.Dir\<close>
  drops the last one). The state of the file system is the map from paths to regular
  files and the set of directories.
\<close>

type_synonym path = "string list"

record regular =
  contents :: bytes
  mode :: nat

record fs =
  files :: "path \<rightharpoonup> regular"
  dirs :: "path set"

section \<open>System calls\<close>

text \<open>
  The operating system is outside the repository. Each call the destinations make can fail;
  which ones do is decided by the environment: \<open>fault\<close> maps a call, with its arguments, to
  the error it returns, if any. The source tests the error of every call listed here, so each
  is a branch of the model. \<open>suffixes\<close> are the random name endings \<^verbatim>\<open>ioutil.TempFile\<close>
  tries, in order.
\<close>

datatype syscall =
    SysTempFile path string
  | SysWrite path nat
  | SysSync path
  | SysChmod path nat
  | SysRename path path
  | SysStat path
  | SysMkdirAll path
  | SysWriteFile path

record env =
  fault :: "syscall \<Rightarrow> error option"
  suffixes :: "string list"

definition mode_0600 :: nat where "mode_0600 = 6 * 64"
definition mode_0644 :: nat where "mode_0644 = 6 * 64 + 4 * 8 + 4"

text \<open>
  \<^verbatim>\<open>ioutil.TempFile(dir, prefix)\<close> creates, exclusively, an empty file of mode 0600 named
  \<open>prefix\<close> followed by a random ending: the first candidate that does not exist yet. It
  fails when the call fails or every candidate exists.
\<close>

definition TempFile :: "env \<Rightarrow> path \<Rightarrow> string \<Rightarrow> fs \<Rightarrow> error + path \<times> fs" where
  "TempFile E d prefix s =
     (case fault E (SysTempFile d prefix) of
        Some err \<Rightarrow> Inl err
      | None \<Rightarrow>
          (case find (\<lambda>name. files s name = None \<and> name \<notin> dirs s)
                     (map (\<lambda>x. d @ [prefix @ x]) (suffixes E)) of
             None \<Rightarrow> Inl (ExternalError ''file exists'')
           | Some name \<Rightarrow>
               Inr (name, s\<lparr>files := (files s)(name \<mapsto> \<lparr>contents = [], mode = mode_0600\<rparr>)\<rparr>)))"

text \<open>
  Operations on the open temporary file and on paths. \<^verbatim>\<open>Write\<close> appends to the file;
  \<^verbatim>\<open>os.Rename\<close> replaces the target; \<^verbatim>\<open>os.Remove\<close> is called in a deferred function
  that discards its result, and is modelled as unlinking the name; \<^verbatim>\<open>ioutil.WriteFile\<close>
  truncates or creates, the permission applying to a new file only.
\<close>

definition Write :: "env \<Rightarrow> path \<Rightarrow> bytes \<Rightarrow> fs \<Rightarrow> error option \<times> fs" where
  "Write E f p s =
     (case files s f of
        None \<Rightarrow> (fault E (SysWrite f 0), s)
      | Some r \<Rightarrow>
          (case fault E (SysWrite f (length (contents r))) of
             Some err \<Rightarrow> (Some err, s)
           | None \<Rightarrow> (None, s\<lparr>files := (files s)(f \<mapsto> r\<lparr>contents := contents r @ p\<rparr>)\<rparr>)))"

definition Sync :: "env \<Rightarrow> path \<Rightarrow> error option" where
  "Sync E f = fault E (SysSync f)"

definition Chmod :: "env \<Rightarrow> path \<Rightarrow> nat \<Rightarrow> fs \<Rightarrow> error option \<times> fs" where
  "Chmod E f m s =
     (case fault E (SysChmod f m) of
        Some err \<Rightarrow> (Some err, s)
      | None \<Rightarrow>
          (case files s f of
             None \<Rightarrow> (None, s)
           | Some r \<Rightarrow> (None, s\<lparr>files := (files s)(f \<mapsto> r\<lparr>mode := m\<rparr>)\<rparr>)))"

definition Rename :: "env \<Rightarrow> path \<Rightarrow> path \<Rightarrow> fs \<Rightarrow> error option \<times> fs" where
  "Rename E old new s =
     (case fault E (SysRename old new) of
        Some err \<Rightarrow> (Some err, s)
      | None \<Rightarrow>
          (case files s old of
             None \<Rightarrow> (Some (ExternalError ''no such file or directory''), s)
           | Some r \<Rightarrow>
               if old = new then (None, s)
               else (None, s\<lparr>files := (files s)(new \<mapsto> r, old := None)\<rparr>)))"

definition Remove :: "path \<Rightarrow> fs \<Rightarrow> fs" where
  "Remove f s = s\<lparr>files := (files s)(f := None)\<rparr>"

definition WriteFile :: "env \<Rightarrow> path \<Rightarrow> bytes \<Rightarrow> nat \<Rightarrow> fs \<Rightarrow> error option \<times> fs" where
  "WriteFile E f data perm s =
     (case fault E (SysWriteFile f) of
        Some err \<Rightarrow> (Some err, s)
      | None \<Rightarrow>
          (None, s\<lparr>files := (files s)(f \<mapsto>
             \<lparr>contents = data, mode = (case files s f of None \<Rightarrow> perm | Some r \<Rightarrow> mode r)\<rparr>)\<rparr>))"

text \<open>
  \<^verbatim>\<open>io.Copy(blobFile, io.TeeReader(stream, h))\<close>: each read that yields bytes first feeds them
  to the hash \<open>h\<close> (the tee), then writes them to the file; a failing write or a failing
  read ends the loop with the count written so far and the error. The hash state is the
  sequence of bytes fed to it. The count is Go's \<^verbatim>\<open>int64\<close>, which a stream that fits a file
  system cannot overflow; it is an \<^typ>\<open>int\<close>.
\<close>

fun io_Copy :: "env \<Rightarrow> path \<Rightarrow> reader \<Rightarrow> bytes \<Rightarrow> int \<Rightarrow> fs \<Rightarrow> (int \<times> error option) \<times> bytes \<times> fs" where
  "io_Copy E dst EOF h written s = ((written, None), h, s)"
| "io_Copy E dst (Fail err) h written s = ((written, Some err), h, s)"
| "io_Copy E dst (Data p r) h written s =
     (if p = [] then io_Copy E dst r h written s
      else case Write E dst p s of
             (Some err, s') \<Rightarrow> ((written, Some err), h @ p, s')
           | (None, s') \<Rightarrow> io_Copy E dst r (h @ p) (written + int (length p)) s')"

text \<open>
  What a stream yields: the bytes of its reads up to its end, and the error it ends with, if
  it does not end with \<open>EOF\<close>.
\<close>

fun stream_bytes :: "reader \<Rightarrow> bytes" where
  "stream_bytes EOF = []"
| "stream_bytes (Fail err) = []"
| "stream_bytes (Data p r) = p @ stream_bytes r"

fun stream_error :: "reader \<Rightarrow> error option" where
  "stream_error EOF = None"
| "stream_error (Fail err) = Some err"
| "stream_error (Data p r) = stream_error r"

section \<open>SHA-256 and hexadecimal encoding\<close>

text \<open>
  \<^verbatim>\<open>crypto/sha256\<close> (FIPS 180-4) on 32-bit words, and \<^verbatim>\<open>hex.EncodeToString\<close>. Both are
  standard library (the round constants and the initial state are written in decimal).
  A rotation is the pair of shifts of the Go code, \<^verbatim>\<open>x>>n | x<<(32-n)\<close>. \<open>rounds\<close> runs
  the 64 rounds of one block over a window of 16 schedule words, which it extends by one word
  per round; \<open>blocks\<close> consumes the padded message 64 bytes at a time. \<open>sha256_Sum b\<close> is
  \<^verbatim>\<open>h.Sum(nil)\<close> after the bytes \<open>b\<close> were written to a fresh \<^verbatim>\<open>sha256.New()\<close>.
\<close>

type_synonym w32 = "32 word"

definition K256 :: "w32 list" where
  "K256 = [
    1116352408, 1899447441, 3049323471, 3921009573, 961987163, 1508970993, 2453635748, 2870763221,
    3624381080, 310598401, 607225278, 1426881987, 1925078388, 2162078206, 2614888103, 3248222580,
    3835390401, 4022224774, 264347078, 604807628, 770255983, 1249150122, 1555081692, 1996064986,
    2554220882, 2821834349, 2952996808, 3210313671, 3336571891, 3584528711, 113926993, 338241895,
    666307205, 773529912, 1294757372, 1396182291, 1695183700, 1986661051, 2177026350, 2456956037,
    2730485921, 2820302411, 3259730800, 3345764771, 3516065817, 3600352804, 4094571909, 275423344,
    430227734, 506948616, 659060556, 883997877, 958139571, 1322822218, 1537002063, 1747873779,
    1955562222, 2024104815, 2227730452, 2361852424, 2428436474, 2756734187, 3204031479, 3329325298]"

definition init256 :: "w32 list" where
  "init256 = [1779033703, 3144134277, 1013904242, 2773480762, 1359893119, 2600822924, 528734635, 1541459225]"

definition rotr :: "nat \<Rightarrow> w32 \<Rightarrow> w32" where
  "rotr n x = drop_bit n x OR push_bit (32 - n) x"

definition Ch :: "w32 \<Rightarrow> w32 \<Rightarrow> w32 \<Rightarrow> w32" where
  "Ch e f g = (e AND f) XOR (NOT e AND g)"

definition Maj :: "w32 \<Rightarrow> w32 \<Rightarrow> w32 \<Rightarrow> w32" where
  "Maj a b c = (a AND b) XOR (a AND c) XOR (b AND c)"

definition Sigma0 :: "w32 \<Rightarrow> w32" where
  "Sigma0 x = rotr 2 x XOR rotr 13 x XOR rotr 22 x"

definition Sigma1 :: "w32 \<Rightarrow> w32" where
  "Sigma1 x = rotr 6 x XOR rotr 11 x XOR rotr 25 x"

definition sigma0 :: "w32 \<Rightarrow> w32" where
  "sigma0 x = rotr 7 x XOR rotr 18 x XOR drop_bit 3 x"

definition sigma1 :: "w32 \<Rightarrow> w32" where
  "sigma1 x = rotr 17 x XOR rotr 19 x XOR drop_bit 10 x"

fun round256 :: "w32 \<Rightarrow> w32 \<Rightarrow> w32 list \<Rightarrow> w32 list" where
  "round256 k w [a, b, c, d, e, f, g, h] =
     (let T1 = h + Sigma1 e + Ch e f g + k + w;
          T2 = Sigma0 a + Maj a b c
      in [T1 + T2, a, b, c, d + T1, e, f, g])"
| "round256 k w v = v"

fun rounds :: "w32 list \<Rightarrow> w32 list \<Rightarrow> w32 list \<Rightarrow> w32 list" where
  "rounds [] w v = v"
| "rounds (k # ks) w v =
     rounds ks (tl w @ [sigma1 (w ! 14) + w ! 9 + sigma0 (w ! 1) + w ! 0]) (round256 k (hd w) v)"

definition block256 :: "w32 list \<Rightarrow> w32 list \<Rightarrow> w32 list" where
  "block256 H M = map2 (+) H (rounds K256 M H)"

fun words_be :: "nat list \<Rightarrow> w32 list" where
  "words_be (b0 # b1 # b2 # b3 # bs) = word_of_nat (((b0 * 256 + b1) * 256 + b2) * 256 + b3) # words_be bs"
| "words_be bs = []"

fun blocks :: "w32 list \<Rightarrow> nat list \<Rightarrow> w32 list" where
  "blocks H p = (if length p < 64 then H else blocks (block256 H (words_be (take 64 p))) (drop 64 p))"

declare blocks.simps [simp del]

definition pad256 :: "bytes \<Rightarrow> nat list" where
  "pad256 msg =
     (let n = length msg; bits = (8 * n) mod 2 ^ 64
      in map of_char msg @ [128] @ replicate ((119 - n mod 64) mod 64) 0
         @ [bits div 2 ^ 56 mod 256, bits div 2 ^ 48 mod 256, bits div 2 ^ 40 mod 256,
            bits div 2 ^ 32 mod 256, bits div 2 ^ 24 mod 256, bits div 2 ^ 16 mod 256,
            bits div 2 ^ 8 mod 256, bits mod 256])"

definition bytes_be :: "w32 \<Rightarrow> bytes" where
  "bytes_be w = [char_of (unat w div 2 ^ 24), char_of (unat w div 2 ^ 16), char_of (unat w div 2 ^ 8), char_of (unat w)]"

definition sha256_Sum :: "bytes \<Rightarrow> bytes" where
  "sha256_Sum msg = concat (map bytes_be (blocks init256 (pad256 msg)))"

definition hextable :: string where "hextable = ''0123456789abcdef''"

definition EncodeToString :: "bytes \<Rightarrow> string" where
  "EncodeToString src = concat (map (\<lambda>v. [hextable ! (of_char v div 16), hextable ! (of_char v mod 16)]) src)"

section \<open>Directory destination\<close>

text \<open>The reference of a directory destination: the path of the directory.\<close>

record dirReference =
  ref_path :: path

record dirImageDestination =
  dir_ref :: dirReference

text \<open>
  Modelled from the spec: \<^verbatim>\<open>dirReference.layerPath\<close> is declared with the directory
  transport, outside the files at hand; the spec has the directory backend use the bare hex
  digest as the file name inside the destination's directory.
\<close>

definition layerPath :: "dirReference \<Rightarrow> string \<Rightarrow> path" where
  "layerPath ref digest = ref_path ref @ [digest]"

text \<open>
  \<^verbatim>\<open>PutBlob\<close> (directory/directory_dest.go). The function returns the Go triple
  \<^verbatim>\<open>(string, int64, error)\<close> and the file system it leaves. \<open>dir_PutBlob_body\<close> is the part
  after the \<^verbatim>\<open>defer\<close> statement and also returns the variable \<^verbatim>\<open>succeeded\<close>;
  \<open>dir_PutBlob\<close> creates the temporary file and runs the deferred function at the end.
\<close>

definition dir_PutBlob_body ::
  "env \<Rightarrow> dirImageDestination \<Rightarrow> reader \<Rightarrow> path \<Rightarrow> fs \<Rightarrow> (string \<times> int \<times> error option) \<times> bool \<times> fs" where
  "dir_PutBlob_body E d stream blobFile s0 =
     (case io_Copy E blobFile stream [] 0 s0 of
        ((written, Some err), h, s1) \<Rightarrow> (('''', -1, Some err), False, s1)
      | ((written, None), h, s1) \<Rightarrow>
          (case Sync E blobFile of
             Some err \<Rightarrow> (('''', -1, Some err), False, s1)
           | None \<Rightarrow>
               (case Chmod E blobFile mode_0644 s1 of
                  (Some err, s2) \<Rightarrow> (('''', -1, Some err), False, s2)
                | (None, s2) \<Rightarrow>
                    (let computedDigest = EncodeToString (sha256_Sum h);
                         blobPath = layerPath (dir_ref d) computedDigest
                     in case Rename E blobFile blobPath s2 of
                          (Some err, s3) \<Rightarrow> (('''', -1, Some err), False, s3)
                        | (None, s3) \<Rightarrow> ((computedDigest, written, None), True, s3)))))"

definition dir_PutBlob ::
  "env \<Rightarrow> dirImageDestination \<Rightarrow> reader \<Rightarrow> string \<Rightarrow> fs \<Rightarrow> (string \<times> int \<times> error option) \<times> fs" where
  "dir_PutBlob E d stream digest s =
     (case TempFile E (ref_path (dir_ref d)) ''dir-put-blob'' s of
        Inl err \<Rightarrow> (('''', -1, Some err), s)
      | Inr (blobFile, s0) \<Rightarrow>
          (case dir_PutBlob_body E d stream blobFile s0 of
             (ret, succeeded, s1) \<Rightarrow> (ret, if \<not> succeeded then Remove blobFile s1 else s1)))"

section \<open>OCI layout destination\<close>

text \<open>The reference of an OCI layout: its directory and the tag.\<close>

record ociReference =
  ref_dir :: path
  ref_tag :: string

record ociImageDestination =
  oci_ref :: ociReference

text \<open>
  \<^verbatim>\<open>PutSignatures\<close> (oci/oci_dest.go) touches nothing; the file system is passed through so
  that this can be stated.
\<close>

definition oci_PutSignatures :: "ociImageDestination \<Rightarrow> bytes list \<Rightarrow> fs \<Rightarrow> error option \<times> fs" where
  "oci_PutSignatures d signatures s =
     (if length signatures \<noteq> 0
      then (Some (Errorf ''Pushing signatures for OCI images is not supported''), s)
      else (None, s))"

text \<open>
  Modelled from the spec: \<^verbatim>\<open>ociReference.blobPath\<close> is declared with the OCI transport,
  outside the files at hand. The spec gives the layout \<^verbatim>\<open><dir>/blobs/<algo>/<hex>\<close> for a
  digest \<^verbatim>\<open><algo>:<hex>\<close>; the source shows that \<^verbatim>\<open>blobPath\<close> can return an error,
  taken to be the case of a digest without a colon.
\<close>

definition blobPath :: "ociReference \<Rightarrow> string \<Rightarrow> error + path" where
  "blobPath ref digest =
     (if CHR '':'' \<notin> set digest then Inl (Errorf (''unexpected digest reference '' @ digest))
      else Inr (ref_dir ref @ [''blobs'', takeWhile (\<lambda>c. c \<noteq> CHR '':'') digest,
                           tl (dropWhile (\<lambda>c. c \<noteq> CHR '':'') digest)]))"

text \<open>Modelled from the spec: \<^verbatim>\<open>ociReference.ociLayoutPath\<close>, the file \<^verbatim>\<open><dir>/oci-layout\<close>.\<close>

definition ociLayoutPath :: "ociReference \<Rightarrow> path" where
  "ociLayoutPath ref = ref_dir ref @ [''oci-layout'']"

text \<open>Modelled from the spec: \<^verbatim>\<open>ociReference.descriptorPath\<close>, the file \<^verbatim>\<open><dir>/refs/<tag>\<close>.\<close>

definition descriptorPath :: "ociReference \<Rightarrow> string \<Rightarrow> path" where
  "descriptorPath ref digest = ref_dir ref @ [''refs'', digest]"

text \<open>
  \<^verbatim>\<open>ensureParentDirectoryExists\<close> (oci/oci_dest.go): when \<^verbatim>\<open>os.Stat\<close> of the parent fails
  with "not exist", \<^verbatim>\<open>os.MkdirAll\<close> creates it and its ancestors; any other outcome of
  \<^verbatim>\<open>os.Stat\<close> returns no error.
\<close>

definition MkdirAll :: "env \<Rightarrow> path \<Rightarrow> fs \<Rightarrow> error option \<times> fs" where
  "MkdirAll E p s =
     (case fault E (SysMkdirAll p) of
        Some err \<Rightarrow> (Some err, s)
      | None \<Rightarrow> (None, s\<lparr>dirs := dirs s \<union> set (map (\<lambda>n. take n p) [0..<Suc (length p)])\<rparr>))"

definition ensureParentDirectoryExists :: "env \<Rightarrow> path \<Rightarrow> fs \<Rightarrow> error option \<times> fs" where
  "ensureParentDirectoryExists E p s =
     (let parent = butlast p
      in if fault E (SysStat parent) = None \<and> parent \<notin> dirs s \<and> files s parent = None
         then (case MkdirAll E parent s of
                 (Some err, s') \<Rightarrow> (Some err, s')
               | (None, s') \<Rightarrow> (None, s'))
         else (None, s))"

text \<open>\<^verbatim>\<open>PutBlob\<close> (oci/oci_dest.go), in the same two parts as the directory one.\<close>

definition oci_PutBlob_body ::
  "env \<Rightarrow> ociImageDestination \<Rightarrow> reader \<Rightarrow> path \<Rightarrow> fs \<Rightarrow> (string \<times> int \<times> error option) \<times> bool \<times> fs" where
  "oci_PutBlob_body E d stream blobFile s0 =
     (case io_Copy E blobFile stream [] 0 s0 of
        ((written, Some err), h, s1) \<Rightarrow> (('''', -1, Some err), False, s1)
      | ((written, None), h, s1) \<Rightarrow>
          (case Sync E blobFile of
             Some err \<Rightarrow> (('''', -1, Some err), False, s1)
           | None \<Rightarrow>
               (case Chmod E blobFile mode_0644 s1 of
                  (Some err, s2) \<Rightarrow> (('''', -1, Some err), False, s2)
                | (None, s2) \<Rightarrow>
                    (let computedDigest = ''sha256:'' @ EncodeToString (sha256_Sum h)
                     in case blobPath (oci_ref d) computedDigest of
                          Inl err \<Rightarrow> (('''', -1, Some err), False, s2)
                        | Inr blobPath' \<Rightarrow>
                            (case ensureParentDirectoryExists E blobPath' s2 of
                               (Some err, s3) \<Rightarrow> (('''', -1, Some err), False, s3)
                             | (None, s3) \<Rightarrow>
                                 (case Rename E blobFile blobPath' s3 of
                                    (Some err, s4) \<Rightarrow> (('''', -1, Some err), False, s4)
                                  | (None, s4) \<Rightarrow> ((computedDigest, written, None), True, s4)))))))"

definition oci_PutBlob ::
  "env \<Rightarrow> ociImageDestination \<Rightarrow> reader \<Rightarrow> string \<Rightarrow> fs \<Rightarrow> (string \<times> int \<times> error option) \<times> fs" where
  "oci_PutBlob E d stream digest s =
     (case TempFile E (ref_dir (oci_ref d)) ''oci-put-blob'' s of
        Inl err \<Rightarrow> (('''', -1, Some err), s)
      | Inr (blobFile, s0) \<Rightarrow>
          (case oci_PutBlob_body E d stream blobFile s0 of
             (ret, succeeded, s1) \<Rightarrow> (ret, if \<not> succeeded then Remove blobFile s1 else s1)))"

section \<open>OCI layout destination: manifests\<close>

text \<open>
  \<^verbatim>\<open>imgspec.Descriptor\<close> and \<^verbatim>\<open>imgspecv1.Manifest\<close> with the fields the source touches.
  The functions the conversion calls outside the files at hand (\<^verbatim>\<open>manifest.GuessMIMEType\<close>,
  \<^verbatim>\<open>manifest.Digest\<close>, \<^verbatim>\<open>json.Unmarshal\<close> into a manifest, \<^verbatim>\<open>json.Marshal\<close> of a manifest
  and of a descriptor) are the fields of \<open>lib\<close>; every theorem holds for any of them.
\<close>

record Descriptor =
  MediaType :: string
  Digest :: string
  Size :: int

record Manifest =
  SchemaVersion :: int
  man_MediaType :: string
  Config :: Descriptor
  Layers :: "Descriptor list"
  Annotations :: "(string \<times> string) list"

record lib =
  manifest_GuessMIMEType :: "bytes \<Rightarrow> string"
  manifest_Digest :: "bytes \<Rightarrow> error + string"
  json_Unmarshal :: "bytes \<Rightarrow> error + Manifest"
  json_Marshal :: "Manifest \<Rightarrow> error + bytes"
  json_Marshal_Descriptor :: "Descriptor \<Rightarrow> error + bytes"

definition createManifest :: "lib \<Rightarrow> bytes \<Rightarrow> error + bytes \<times> string" where
  "createManifest L m =
     (let mt = manifest_GuessMIMEType L m
      in if mt = DockerV2Schema1MIMEType
         then Inl (Errorf ''can't create OCI manifest from Docker V2 schema 1 manifest'')
         else if mt = DockerV2Schema2MIMEType
         then (case json_Unmarshal L m of
                 Inl err \<Rightarrow> Inl err
               | Inr om0 \<Rightarrow>
                   (let om1 = om0\<lparr>man_MediaType := MediaTypeImageManifest\<rparr>;
                        om2 = om1\<lparr>Layers := map (\<lambda>l. l\<lparr>MediaType := MediaTypeImageSerialization\<rparr>) (Layers om1)\<rparr>;
                        om = om2\<lparr>Config := (Config om2)\<lparr>MediaType := MediaTypeImageSerializationConfig\<rparr>\<rparr>
                    in case json_Marshal L om of
                         Inl err \<Rightarrow> Inl err
                       | Inr b \<Rightarrow> Inr (b, man_MediaType om)))
         else if mt = DockerV2ListMIMEType
         then Inl (Errorf ''can't create OCI manifest from Docker V2 schema 2 manifest list'')
         else if mt = MediaTypeImageManifestList
         then Inl (Errorf ''can't create OCI manifest from OCI manifest list'')
         else if mt = MediaTypeImageManifest
         then Inr (m, mt)
         else Inl (Errorf ''Unrecognized manifest media type''))"

definition oci_PutManifest :: "env \<Rightarrow> lib \<Rightarrow> ociImageDestination \<Rightarrow> bytes \<Rightarrow> fs \<Rightarrow> error option \<times> fs" where
  "oci_PutManifest E L d m s =
     (case createManifest L m of
        Inl err \<Rightarrow> (Some err, s)
      | Inr (ociMan, mt) \<Rightarrow>
          (case manifest_Digest L ociMan of
             Inl err \<Rightarrow> (Some err, s)
           | Inr digest \<Rightarrow>
               (let desc = \<lparr>MediaType = mt, Digest = digest, Size = int (length ociMan)\<rparr>
                in case json_Marshal_Descriptor L desc of
                     Inl err \<Rightarrow> (Some err, s)
                   | Inr data \<Rightarrow>
                       (case blobPath (oci_ref d) digest of
                          Inl err \<Rightarrow> (Some err, s)
                        | Inr blobPath' \<Rightarrow>
                            (case WriteFile E blobPath' ociMan mode_0644 s of
                               (Some err, s1) \<Rightarrow> (Some err, s1)
                             | (None, s1) \<Rightarrow>
                                 (case WriteFile E (ociLayoutPath (oci_ref d))
                                         ''{\"imageLayoutVersion\": \"1.0.0\"}'' mode_0644 s1 of
                                    (Some err, s2) \<Rightarrow> (Some err, s2)
                                  | (None, s2) \<Rightarrow>
                                      (let descriptorPath' = descriptorPath (oci_ref d) (ref_tag (oci_ref d))
                                       in case ensureParentDirectoryExists E descriptorPath' s2 of
                                            (Some err, s3) \<Rightarrow> (Some err, s3)
                                          | (None, s3) \<Rightarrow> WriteFile E descriptorPath' data mode_0644 s3)))))))"

section \<open>Concrete inputs\<close>

text \<open>
  Inputs on which the definitions are run: the schema-2 manifest of the spec's conversion
  scenario with a library that guesses a fixed media type and serializes a manifest as the
  list of its media types; an empty file system; an environment where no call fails and one
  where only \<^verbatim>\<open>os.Rename\<close> fails; a directory and an OCI layout destination.
\<close>

definition fixture_manifest :: Manifest where
  "fixture_manifest =
     \<lparr> SchemaVersion = 2, man_MediaType = DockerV2Schema2MIMEType,
       Config = \<lparr> MediaType = ''application/vnd.docker.container.image.v1+json'', Digest = ''sha256:c0'', Size = 7 \<rparr>,
       Layers = [\<lparr> MediaType = ''application/vnd.docker.image.rootfs.diff.tar.gzip'', Digest = ''sha256:1a'', Size = 9 \<rparr>],
       Annotations = [] \<rparr>"

definition fixture_lib :: "string \<Rightarrow> lib" where
  "fixture_lib mt =
     \<lparr> manifest_GuessMIMEType = (\<lambda>m. mt),
       manifest_Digest = (\<lambda>m. Inr ''sha256:00''),
       json_Unmarshal = (\<lambda>m. Inr fixture_manifest),
       json_Marshal = (\<lambda>om. Inr (man_MediaType om @ '' '' @ MediaType (Config om)
                                   @ concat (map (\<lambda>l. '' '' @ MediaType l) (Layers om)))),
       json_Marshal_Descriptor = (\<lambda>desc. Inr (MediaType desc @ '' '' @ Digest desc)) \<rparr>"

definition empty_fs :: fs where
  "empty_fs = \<lparr> files = Map.empty, dirs = {[]} \<rparr>"

definition quiet :: env where
  "quiet = \<lparr> fault = (\<lambda>call. None), suffixes = [''123456789''] \<rparr>"

definition rename_fails :: env where
  "rename_fails =
     \<lparr> fault = (\<lambda>call. case call of SysRename old new \<Rightarrow> Some (ExternalError ''rename failed'') | _ \<Rightarrow> None),
       suffixes = [''123456789''] \<rparr>"

definition dir_dest :: dirImageDestination where
  "dir_dest = \<lparr> dir_ref = \<lparr> ref_path = [''d''] \<rparr> \<rparr>"

definition oci_dest :: ociImageDestination where
  "oci_dest = \<lparr> oci_ref = \<lparr> ref_dir = [''layout''], ref_tag = ''latest'' \<rparr> \<rparr>"

section \<open>The common first half of the two write paths\<close>

text \<open>
  Both \<^verbatim>\<open>PutBlob\<close> bodies start with the same three steps (copy, sync, chmod). \<open>staged\<close>
  names that prefix, for the proofs only: it returns the hash input and the byte count, or
  the error of the step that failed, and the file system.
\<close>

definition staged :: "env \<Rightarrow> path \<Rightarrow> reader \<Rightarrow> fs \<Rightarrow> (error + bytes \<times> int) \<times> fs" where
  "staged E tmp stream s0 =
     (case io_Copy E tmp stream [] 0 s0 of
        ((written, Some err), h, s1) \<Rightarrow> (Inl err, s1)
      | ((written, None), h, s1) \<Rightarrow>
          (case Sync E tmp of
             Some err \<Rightarrow> (Inl err, s1)
           | None \<Rightarrow>
               (case Chmod E tmp mode_0644 s1 of
                  (Some err, s2) \<Rightarrow> (Inl err, s2)
                | (None, s2) \<Rightarrow> (Inr (h, written), s2))))"

section \<open>Results about the dispatch\<close>

lemmas mediatype_defs =
  DockerV2Schema1MediaType_def DockerV2Schema1SignedMediaType_def DockerV2Schema2MediaType_def
  DockerV2ListMediaType_def DockerV2Schema1MIMEType_def DockerV2Schema2MIMEType_def
  DockerV2ListMIMEType_def MediaTypeImageManifest_def MediaTypeImageManifestList_def
  MediaTypeImageSerialization_def MediaTypeImageSerializationConfig_def

lemma dispatched_distinct: "distinct dispatched" "'''' \<notin> set dispatched"
  by (simp_all add: dispatched_def mediatype_defs)

text \<open>
  C4. Whatever the manifest bytes: with the empty media type the dispatch fails with
  "could not guess manifest media type" (the spec's UnknownManifestMIME); with a non-empty
  media type that has no case in the switch it fails with "unsupported manifest media type"
  followed by the type (UnsupportedManifestMIME); with either Docker schema-1 type or
  \<^verbatim>\<open>application/json\<close> the result is that of the schema-1 constructor.
\<close>

theorem manifestInstanceFromBlob_errors:
  "manifestInstanceFromBlob K src manblob '''' = Inl (Errorf ''could not guess manifest media type'')
   \<and> (mt \<noteq> '''' \<and> mt \<notin> set dispatched \<longrightarrow>
        manifestInstanceFromBlob K src manblob mt = Inl (Errorf (''unsupported manifest media type '' @ mt)))
   \<and> (mt \<in> {DockerV2Schema1MediaType, DockerV2Schema1SignedMediaType, ''application/json''} \<longrightarrow>
        manifestInstanceFromBlob K src manblob mt = manifestSchema1FromManifest K manblob)"
proof (intro conjI impI)
  show "manifestInstanceFromBlob K src manblob '''' = Inl (Errorf ''could not guess manifest media type'')"
    by (simp add: manifestInstanceFromBlob_def mediatype_defs)
next
  assume "mt \<noteq> '''' \<and> mt \<notin> set dispatched"
  then show "manifestInstanceFromBlob K src manblob mt = Inl (Errorf (''unsupported manifest media type '' @ mt))"
    by (simp add: manifestInstanceFromBlob_def dispatched_def)
next
  assume "mt \<in> {DockerV2Schema1MediaType, DockerV2Schema1SignedMediaType, ''application/json''}"
  then show "manifestInstanceFromBlob K src manblob mt = manifestSchema1FromManifest K manblob"
    by (auto simp add: manifestInstanceFromBlob_def)
qed

theorem manifestInstanceFromBlob_errors_witness:
  "manifestInstanceFromBlob accepting () ''{}'' '''' = Inl (Errorf ''could not guess manifest media type'')
   \<and> manifestInstanceFromBlob accepting () ''{}'' ''text/plain''
       = Inl (Errorf ''unsupported manifest media type text/plain'')
   \<and> manifestInstanceFromBlob accepting () ''{}'' ''application/json'' = Inr (Schema1 ''{}'')"
  using manifestInstanceFromBlob_errors [of accepting "()" "''{}''" "''text/plain''"]
        manifestInstanceFromBlob_errors [of accepting "()" "''{}''" "''application/json''"]
  by (simp add: dispatched_def mediatype_defs accepting_def)

text \<open>
  C5, as the code has it. Each of the five media types with a case in the switch is handed
  to its constructor, whose result is the result of the dispatch; the two OCI media types
  have no case and fail with "unsupported manifest media type", however well-formed the
  bytes are.
\<close>

theorem manifestInstanceFromBlob_selects:
  "(mt \<in> {DockerV2Schema1MediaType, DockerV2Schema1SignedMediaType, ''application/json''} \<longrightarrow>
      manifestInstanceFromBlob K src manblob mt = manifestSchema1FromManifest K manblob)
   \<and> (mt = DockerV2Schema2MediaType \<longrightarrow>
      manifestInstanceFromBlob K src manblob mt = manifestSchema2FromManifest K src manblob)
   \<and> (mt = DockerV2ListMediaType \<longrightarrow>
      manifestInstanceFromBlob K src manblob mt = manifestSchema2FromManifestList K src manblob)
   \<and> (mt \<in> {MediaTypeImageManifest, MediaTypeImageManifestList} \<longrightarrow>
      manifestInstanceFromBlob K src manblob mt = Inl (Errorf (''unsupported manifest media type '' @ mt)))"
  by (auto simp add: manifestInstanceFromBlob_def mediatype_defs)

theorem manifestInstanceFromBlob_selects_witness:
  "manifestInstanceFromBlob accepting () ''{}'' DockerV2Schema1SignedMediaType = Inr (Schema1 ''{}'')
   \<and> manifestInstanceFromBlob accepting () ''{}'' DockerV2Schema2MediaType = Inr (Schema2 ''{}'')
   \<and> manifestInstanceFromBlob accepting () ''{}'' DockerV2ListMediaType = Inr (Schema2List ''{}'')
   \<and> manifestInstanceFromBlob accepting () ''{}'' MediaTypeImageManifestList
       = Inl (Errorf (''unsupported manifest media type '' @ MediaTypeImageManifestList))"
  using manifestInstanceFromBlob_selects [of DockerV2Schema1SignedMediaType accepting "()" "''{}''"]
        manifestInstanceFromBlob_selects [of DockerV2Schema2MediaType accepting "()" "''{}''"]
        manifestInstanceFromBlob_selects [of DockerV2ListMediaType accepting "()" "''{}''"]
        manifestInstanceFromBlob_selects [of MediaTypeImageManifestList accepting "()" "''{}''"]
  by (simp add: accepting_def)

text \<open>
  The claim as the spec words it fails: the OCI manifest media type, with constructors that
  accept any bytes, is rejected by the dispatch.
\<close>

theorem manifestInstanceFromBlob_oci_counterexample:
  "manifestInstanceFromBlob accepting () ''{\"schemaVersion\":2}'' ''application/vnd.oci.image.manifest.v1+json''
     = Inl (Errorf ''unsupported manifest media type application/vnd.oci.image.manifest.v1+json'')"
  by (simp add: manifestInstanceFromBlob_def mediatype_defs)

section \<open>Results about the registry source\<close>

lemma digitChar_table: "\<forall>n \<in> set [0..<10]. isDigit (digitChar n) \<and> digitVal (digitChar n) = n"
  by code_simp

lemma isDigit_digitChar: "n < 10 \<Longrightarrow> isDigit (digitChar n)"
  using digitChar_table by simp

lemma digitVal_digitChar: "n < 10 \<Longrightarrow> digitVal (digitChar n) = n"
  using digitChar_table by simp

lemma ParseUint_digits_snoc:
  "ParseUint_digits acc (s @ [d]) =
     (case ParseUint_digits acc s of
        Inl e \<Rightarrow> Inl e
      | Inr m \<Rightarrow> if \<not> isDigit d then Inl ErrSyntax
                 else if m * 10 + digitVal d \<ge> 2 ^ 64 then Inl ErrRange
                 else Inr (m * 10 + digitVal d))"
  by (induction s arbitrary: acc) simp_all

lemma ParseUint_digits_utoa: "n < 2 ^ 64 \<Longrightarrow> ParseUint_digits 0 (utoa n) = Inr n"
proof (induction n rule: utoa.induct)
  case (1 n)
  show ?case
  proof (cases "n < 10")
    case True
    then show ?thesis
      by (subst utoa.simps) (simp add: isDigit_digitChar digitVal_digitChar)
  next
    case False
    have "n div 10 < 2 ^ 64" using "1.prems" by (simp add: less_mult_imp_div_less)
    with False "1.IH" have ih: "ParseUint_digits 0 (utoa (n div 10)) = Inr (n div 10)" by simp
    have m: "n mod 10 < 10" by simp
    show ?thesis using False "1.prems"
      by (subst utoa.simps) (simp add: ParseUint_digits_snoc ih isDigit_digitChar digitVal_digitChar)
  qed
qed

lemma utoa_nonempty: "utoa n \<noteq> []"
  by (subst utoa.simps) simp

lemma hd_utoa_digit: "isDigit (hd (utoa n))"
proof (induction n rule: utoa.induct)
  case (1 n)
  show ?case
  proof (cases "n < 10")
    case True then show ?thesis by (subst utoa.simps) (simp add: isDigit_digitChar)
  next
    case False
    with "1.IH" show ?thesis by (subst utoa.simps) (simp add: utoa_nonempty)
  qed
qed

lemma hd_utoa_not_sign: "hd (utoa n) \<noteq> CHR ''+''" "hd (utoa n) \<noteq> CHR ''-''"
  using hd_utoa_digit [of n] by (auto simp: isDigit_def)

lemma ParseInt_Itoa:
  assumes "- (2 ^ 63) \<le> i" "i < 2 ^ 63"
  shows "ParseInt (Itoa i) = Inr i"
proof (cases "i < 0")
  case True
  have "nat (- i) \<le> 2 ^ 63" using assms by (simp add: nat_le_iff)
  then have "ParseUint_digits 0 (utoa (nat (- i))) = Inr (nat (- i))"
    by (intro ParseUint_digits_utoa) simp
  then show ?thesis using True \<open>nat (- i) \<le> 2 ^ 63\<close>
    by (simp add: ParseInt_def Itoa_def ParseUint_def utoa_nonempty)
next
  case False
  have b: "nat i < 2 ^ 63" using assms by (simp add: nat_less_iff)
  then have "ParseUint_digits 0 (utoa (nat i)) = Inr (nat i)"
    by (intro ParseUint_digits_utoa) simp
  then show ?thesis using False b
    by (simp add: ParseInt_def Itoa_def ParseUint_def utoa_nonempty hd_utoa_not_sign Let_def)
qed




text \<open>
  C3, as the code has it. For every list of acceptable media types: when the request and the
  reading of the body succeed and the status is not 200, \<^verbatim>\<open>GetManifest\<close> fails with
  \<open>errFetchManifest\<close> carrying that status and the response body. Status 404 is one of
  these statuses: the source has no separate error for it.
\<close>

theorem GetManifest_non200:
  assumes "makeRequest (docker_c s) ''GET'' (manifestURL (remoteName s) (docker_tag s)) [''Accept'' \<mapsto> mimetypes] = Inr res"
    and "ReadAll (Body res) = Inr body"
    and "StatusCode res \<noteq> 200"
  shows "GetManifest s mimetypes = Inl (errFetchManifest (StatusCode res) body)"
  using assms by (simp add: GetManifest_def)

theorem GetManifest_non200_witness:
  "GetManifest (busybox \<lparr> StatusCode = 500, Header = Map.empty, Body = Data ''internal'' (Data '' error'' EOF) \<rparr>) [DockerV2Schema2MIMEType]
     = Inl (errFetchManifest 500 ''internal error'')"
  using GetManifest_non200 [of "busybox \<lparr> StatusCode = 500, Header = Map.empty, Body = Data ''internal'' (Data '' error'' EOF) \<rparr>"
      "[DockerV2Schema2MIMEType]" "\<lparr> StatusCode = 500, Header = Map.empty, Body = Data ''internal'' (Data '' error'' EOF) \<rparr>" "''internal error''"]
  by (simp add: busybox_def answering_def)

text \<open>
  The claim as the spec words it fails: on status 404 the error is \<open>errFetchManifest\<close> with
  status 404 and the body, the same kind of error as for any other non-200 status.
\<close>

theorem GetManifest_404_counterexample:
  "GetManifest (busybox \<lparr> StatusCode = 404, Header = Map.empty, Body = Data ''manifest unknown'' EOF \<rparr>) [DockerV2Schema2MIMEType]
     = Inl (errFetchManifest 404 ''manifest unknown'')"
  by (simp add: GetManifest_def busybox_def answering_def)

text \<open>
  C9. When the registry answers the blob request with status 200, the size returned with the
  body is the result of \<^verbatim>\<open>ParseInt\<close> on the \<^verbatim>\<open>Content-Length\<close> header, and 0 when
  \<^verbatim>\<open>ParseInt\<close> fails; in particular it is \<open>n\<close> when the header is the decimal form of a
  64-bit signed \<open>n\<close>, and 0 when the header is absent. Any other status makes \<^verbatim>\<open>GetBlob\<close>
  fail with an error that names the status.
\<close>

theorem GetBlob_size:
  assumes "makeRequest (docker_c s) ''GET'' (blobsURL (remoteName s) digest) Map.empty = Inr res"
  shows "(StatusCode res = 200 \<longrightarrow>
            GetBlob s digest = Inr (Body res, case ParseInt (Header_Get (Header res) ''Content-Length'') of
                                               Inl err \<Rightarrow> 0 | Inr n \<Rightarrow> n))
       \<and> (StatusCode res = 200 \<and> Header res ''Content-Length'' = Some [Itoa n] \<and> - (2 ^ 63) \<le> n \<and> n < 2 ^ 63 \<longrightarrow>
            GetBlob s digest = Inr (Body res, n))
       \<and> (StatusCode res = 200 \<and> Header res ''Content-Length'' = None \<longrightarrow>
            GetBlob s digest = Inr (Body res, 0))
       \<and> (StatusCode res = 200 \<and> ParseInt (Header_Get (Header res) ''Content-Length'') = Inl e \<longrightarrow>
            GetBlob s digest = Inr (Body res, 0))
       \<and> (StatusCode res \<noteq> 200 \<longrightarrow>
            GetBlob s digest = Inl (Errorf (''Invalid status code returned when fetching blob '' @ Itoa (StatusCode res))))"
proof (intro conjI impI)
  assume "StatusCode res = 200 \<and> Header res ''Content-Length'' = Some [Itoa n] \<and> - (2 ^ 63) \<le> n \<and> n < 2 ^ 63"
  then show "GetBlob s digest = Inr (Body res, n)"
    using assms by (simp add: GetBlob_def Header_Get_def ParseInt_Itoa)
next
  assume "StatusCode res = 200 \<and> Header res ''Content-Length'' = None"
  then show "GetBlob s digest = Inr (Body res, 0)"
    using assms by (simp add: GetBlob_def Header_Get_def ParseInt_def)
qed (use assms in \<open>simp_all add: GetBlob_def\<close>)

theorem GetBlob_size_witness:
  "GetBlob (busybox \<lparr> StatusCode = 200, Header = [''Content-Length'' \<mapsto> [''1234'']], Body = EOF \<rparr>) ''sha256:00'' = Inr (EOF, 1234)
   \<and> GetBlob (busybox \<lparr> StatusCode = 200, Header = Map.empty, Body = EOF \<rparr>) ''sha256:00'' = Inr (EOF, 0)
   \<and> GetBlob (busybox \<lparr> StatusCode = 200, Header = [''Content-Length'' \<mapsto> [''12a'']], Body = EOF \<rparr>) ''sha256:00'' = Inr (EOF, 0)
   \<and> GetBlob (busybox \<lparr> StatusCode = 404, Header = Map.empty, Body = EOF \<rparr>) ''sha256:00''
        = Inl (Errorf ''Invalid status code returned when fetching blob 404'')"
proof -
  have i: "Itoa 1234 = ''1234''" "Itoa 404 = ''404''"
    by (simp_all add: Itoa_def utoa.simps digitChar_def)
  have p: "ParseInt ''12a'' = Inl ErrSyntax" "ParseInt ''1234'' = Inr 1234" "ParseInt [] = Inl ErrSyntax"
    by (simp_all add: ParseInt_def ParseUint_def isDigit_def digitVal_def)
  let ?r1 = "\<lparr> StatusCode = 200, Header = [''Content-Length'' \<mapsto> [''1234'']], Body = EOF \<rparr>"
  let ?r2 = "\<lparr> StatusCode = 200, Header = Map.empty, Body = EOF \<rparr>"
  let ?r3 = "\<lparr> StatusCode = 200, Header = [''Content-Length'' \<mapsto> [''12a'']], Body = EOF \<rparr>"
  let ?r4 = "\<lparr> StatusCode = 404, Header = Map.empty, Body = EOF \<rparr>"
  have "GetBlob (busybox ?r1) ''sha256:00'' = Inr (EOF, 1234)"
    using GetBlob_size [where s = "busybox ?r1" and res = ?r1 and n = 1234 and e = ErrSyntax and digest = "''sha256:00''"]
    by (simp add: busybox_def answering_def i p Header_Get_def)
  moreover have "GetBlob (busybox ?r2) ''sha256:00'' = Inr (EOF, 0)"
    using GetBlob_size [where s = "busybox ?r2" and res = ?r2 and n = 0 and e = ErrSyntax and digest = "''sha256:00''"]
    by (simp add: busybox_def answering_def p Header_Get_def)
  moreover have "GetBlob (busybox ?r3) ''sha256:00'' = Inr (EOF, 0)"
    using GetBlob_size [where s = "busybox ?r3" and res = ?r3 and n = 0 and e = ErrSyntax and digest = "''sha256:00''"]
    by (simp add: busybox_def answering_def p Header_Get_def)
  moreover have "GetBlob (busybox ?r4) ''sha256:00'' = Inl (Errorf ''Invalid status code returned when fetching blob 404'')"
    using GetBlob_size [where s = "busybox ?r4" and res = ?r4 and n = 0 and e = ErrSyntax and digest = "''sha256:00''"]
    by (simp add: busybox_def answering_def i)
  ultimately show ?thesis by simp
qed

text \<open>
  C8. \<^verbatim>\<open>PutSignatures\<close> of the OCI layout destination returns an error exactly when the list
  of signatures is not empty; with the empty list it returns no error and the file system is
  as before (it is as before in either case); \<^verbatim>\<open>GetSignatures\<close> of the registry source
  returns the empty sequence and no error.
\<close>

theorem signatures_unsupported:
  "((fst (oci_PutSignatures d signatures s) \<noteq> None) = (signatures \<noteq> []))
   \<and> oci_PutSignatures d [] s = (None, s)
   \<and> snd (oci_PutSignatures d signatures s) = s
   \<and> GetSignatures src = Inr []"
  by (simp add: oci_PutSignatures_def GetSignatures_def)

section \<open>Results about the manifest conversion\<close>

text \<open>
  C6. For every manifest whose guessed media type is Docker V2 schema 1, \<^verbatim>\<open>createManifest\<close>
  fails with "can't create OCI manifest from Docker V2 schema 1 manifest", and therefore
  \<^verbatim>\<open>PutManifest\<close> of the OCI layout destination fails with that error and writes nothing.
\<close>

theorem schema1_to_oci_rejected:
  assumes "manifest_GuessMIMEType L m = DockerV2Schema1MIMEType"
  shows "createManifest L m = Inl (Errorf ''can't create OCI manifest from Docker V2 schema 1 manifest'')
       \<and> oci_PutManifest E L d m s = (Some (Errorf ''can't create OCI manifest from Docker V2 schema 1 manifest''), s)"
  using assms by (simp add: createManifest_def oci_PutManifest_def)

theorem schema1_to_oci_rejected_witness:
  "createManifest (fixture_lib DockerV2Schema1MIMEType) ''{\"schemaVersion\":1}''
     = Inl (Errorf ''can't create OCI manifest from Docker V2 schema 1 manifest'')
   \<and> oci_PutManifest quiet (fixture_lib DockerV2Schema1MIMEType) \<lparr> oci_ref = \<lparr> ref_dir = [''layout''], ref_tag = ''latest'' \<rparr> \<rparr>
         ''{\"schemaVersion\":1}'' empty_fs
     = (Some (Errorf ''can't create OCI manifest from Docker V2 schema 1 manifest''), empty_fs)"
  using schema1_to_oci_rejected [of "fixture_lib DockerV2Schema1MIMEType" "''{\"schemaVersion\":1}''" quiet
          "\<lparr> oci_ref = \<lparr> ref_dir = [''layout''], ref_tag = ''latest'' \<rparr> \<rparr>" empty_fs]
  by (simp add: fixture_lib_def)

text \<open>
  C7. For every manifest guessed to be Docker V2 schema 2 that \<^verbatim>\<open>json.Unmarshal\<close> accepts,
  \<^verbatim>\<open>createManifest\<close> serializes a manifest \<open>om'\<close> whose media type is
  \<^verbatim>\<open>application/vnd.oci.image.manifest.v1+json\<close>, whose config descriptor has the OCI config
  media type and whose layer descriptors all have the OCI layer serialization media type,
  every other field being that of the parsed manifest; it returns the serialized bytes with
  the OCI manifest media type (or the serializer's error).
\<close>

theorem schema2_to_oci_rewrites:
  assumes "manifest_GuessMIMEType L m = DockerV2Schema2MIMEType"
    and "json_Unmarshal L m = Inr om"
  shows "\<exists>om'. createManifest L m =
                  (case json_Marshal L om' of
                     Inl err \<Rightarrow> Inl err
                   | Inr b \<Rightarrow> Inr (b, ''application/vnd.oci.image.manifest.v1+json''))
              \<and> man_MediaType om' = ''application/vnd.oci.image.manifest.v1+json''
              \<and> MediaType (Config om') = MediaTypeImageSerializationConfig
              \<and> (\<forall>l \<in> set (Layers om'). MediaType l = MediaTypeImageSerialization)
              \<and> length (Layers om') = length (Layers om)
              \<and> map Digest (Layers om') = map Digest (Layers om)
              \<and> map Size (Layers om') = map Size (Layers om)
              \<and> Digest (Config om') = Digest (Config om) \<and> Size (Config om') = Size (Config om)
              \<and> SchemaVersion om' = SchemaVersion om \<and> Annotations om' = Annotations om"
proof -
  let ?om = "om\<lparr> man_MediaType := MediaTypeImageManifest,
                 Layers := map (\<lambda>l. l\<lparr>MediaType := MediaTypeImageSerialization\<rparr>) (Layers om),
                 Config := (Config om)\<lparr>MediaType := MediaTypeImageSerializationConfig\<rparr> \<rparr>"
  have ne: "DockerV2Schema2MIMEType \<noteq> DockerV2Schema1MIMEType"
    by (simp add: mediatype_defs)
  have "createManifest L m =
          (case json_Marshal L ?om of Inl err \<Rightarrow> Inl err
           | Inr b \<Rightarrow> Inr (b, ''application/vnd.oci.image.manifest.v1+json''))"
    using assms ne by (simp add: createManifest_def Let_def MediaTypeImageManifest_def split: sum.split)
  moreover have "man_MediaType ?om = ''application/vnd.oci.image.manifest.v1+json''"
    by (simp add: MediaTypeImageManifest_def)
  moreover have "map Digest (Layers ?om) = map Digest (Layers om)"
    "map Size (Layers ?om) = map Size (Layers om)"
    by (simp_all add: comp_def)
  ultimately show ?thesis
    by (intro exI [of _ ?om]) simp
qed

theorem schema2_to_oci_rewrites_witness:
  "createManifest (fixture_lib DockerV2Schema2MIMEType) ''{\"schemaVersion\":2}''
     = Inr (''application/vnd.oci.image.manifest.v1+json application/vnd.oci.image.serialization.config.v1+json application/vnd.oci.image.serialization.rootfs.tar.gzip'',
            ''application/vnd.oci.image.manifest.v1+json'')"
proof -
  obtain om' where
    c: "createManifest (fixture_lib DockerV2Schema2MIMEType) ''{\"schemaVersion\":2}'' =
          (case json_Marshal (fixture_lib DockerV2Schema2MIMEType) om' of
             Inl err \<Rightarrow> Inl err
           | Inr b \<Rightarrow> Inr (b, ''application/vnd.oci.image.manifest.v1+json''))"
    and m: "man_MediaType om' = ''application/vnd.oci.image.manifest.v1+json''"
      "MediaType (Config om') = MediaTypeImageSerializationConfig"
    and l: "\<forall>l \<in> set (Layers om'). MediaType l = MediaTypeImageSerialization"
      "length (Layers om') = length (Layers fixture_manifest)"
    using schema2_to_oci_rewrites [of "fixture_lib DockerV2Schema2MIMEType" "''{\"schemaVersion\":2}''" fixture_manifest]
    by (auto simp add: fixture_lib_def)
  from l obtain x where x: "Layers om' = [x]" "MediaType x = MediaTypeImageSerialization"
    by (cases "Layers om'") (auto simp add: fixture_manifest_def)
  show ?thesis
    using c m x by (simp add: fixture_lib_def mediatype_defs)
qed

section \<open>Results about SHA-256\<close>

lemma replicate_numeral_unfold: "replicate (numeral n) b = b # replicate (pred_numeral n) b"
  by (simp add: numeral_eq_Suc)

lemma rotr_bounded: "n \<le> 32 \<Longrightarrow> rotr n x = drop_bit n x OR push_bit (32 - n) (take_bit n x)"
proof -
  assume n: "n \<le> 32"
  have "push_bit (32 - n) (take_bit n x) = push_bit (32 - n) x"
    by (rule bit_word_eqI) (use n in \<open>auto simp add: bit_simps\<close>)
  then show ?thesis by (simp add: rotr_def)
qed

lemmas sha_defs = sha256_Sum_def blocks.simps block256_def pad256_def bytes_be_def
  K256_def init256_def Let_def Sigma0_def Sigma1_def sigma0_def sigma1_def Ch_def Maj_def
  rotr_bounded replicate_numeral_unfold EncodeToString_def hextable_def

text \<open>The digest of the spec's blob round-trip scenario, computed by rewriting.\<close>

lemma sha256_hello:
  "EncodeToString (sha256_Sum ''hello'') = ''2cf24dba5fb0a30e26e83b2ac5b9e29e1b161e5c1fa7425e73043362938b9824''"
  by (simp add: sha_defs)

section \<open>Results about the blob write path\<close>

lemma regular_updates: "f\<lparr>contents := x, mode := m\<rparr> = \<lparr>contents = x, mode = m\<rparr>" for f :: regular
  by (cases f) simp

lemma Remove_Write: "Write E f p s = (r, s') \<Longrightarrow> Remove f s' = Remove f s"
  by (auto simp add: Write_def Remove_def split: option.splits)

lemma Remove_Chmod: "Chmod E f m s = (r, s') \<Longrightarrow> Remove f s' = Remove f s"
  by (auto simp add: Chmod_def Remove_def split: option.splits)

lemma Rename_failed: "Rename E old new s = (Some err, s') \<Longrightarrow> s' = s"
  by (auto simp add: Rename_def split: option.splits if_splits)

lemma Remove_io_Copy: "io_Copy E dst r h w s = (res, h', s') \<Longrightarrow> Remove dst s' = Remove dst s"
proof (induction r arbitrary: h w s)
  case (Data p r)
  show ?case
  proof (cases "p = []")
    case True
    with Data show ?thesis by simp
  next
    case False
    obtain e s1 where w: "Write E dst p s = (e, s1)" by (cases "Write E dst p s")
    then have f: "Remove dst s1 = Remove dst s" by (rule Remove_Write)
    show ?thesis
    proof (cases e)
      case None
      with Data.prems False w have "io_Copy E dst r (h @ p) (w + int (length p)) s1 = (res, h', s')"
        by simp
      then have "Remove dst s' = Remove dst s1" by (rule Data.IH)
      with f show ?thesis by simp
    next
      case (Some err)
      with Data.prems False w have "s' = s1" by simp
      with f show ?thesis by simp
    qed
  qed
qed simp_all

lemma io_Copy_stream_error:
  "stream_error r = Some e \<Longrightarrow> snd (fst (io_Copy E dst r h w s)) \<noteq> None"
  by (induction r arbitrary: h w s) (auto split: prod.splits option.splits)

lemma io_Copy_complete:
  assumes "stream_error r = None" and "\<forall>n. fault E (SysWrite dst n) = None"
    and "files s dst = Some f"
  shows "io_Copy E dst r h w s =
           ((w + int (length (stream_bytes r)), None), h @ stream_bytes r,
            s\<lparr>files := (files s)(dst \<mapsto> f\<lparr>contents := contents f @ stream_bytes r\<rparr>)\<rparr>)"
  using assms
proof (induction r arbitrary: h w s f)
  case (Data p r)
  show ?case
  proof (cases "p = []")
    case True
    with Data.IH [of s f h w] Data.prems show ?thesis by simp
  next
    case False
    let ?f1 = "f\<lparr>contents := contents f @ p\<rparr>"
    let ?s1 = "s\<lparr>files := (files s)(dst \<mapsto> ?f1)\<rparr>"
    have w: "Write E dst p s = (None, ?s1)"
      using Data.prems by (simp add: Write_def)
    have step: "io_Copy E dst (Data p r) h w s = io_Copy E dst r (h @ p) (w + int (length p)) ?s1"
      using False w by simp
    have e: "?s1\<lparr>files := (files ?s1)(dst \<mapsto> X)\<rparr> = s\<lparr>files := (files s)(dst \<mapsto> X)\<rparr>" for X
      by simp
    have ih: "io_Copy E dst r (h @ p) (w + int (length p)) ?s1 =
            ((w + int (length p) + int (length (stream_bytes r)), None), (h @ p) @ stream_bytes r,
             ?s1\<lparr>files := (files ?s1)(dst \<mapsto> ?f1\<lparr>contents := contents ?f1 @ stream_bytes r\<rparr>)\<rparr>)"
      by (rule Data.IH [of ?s1 ?f1 "h @ p" "w + int (length p)"]) (use Data.prems in simp_all)
    show ?thesis unfolding step ih e by (simp add: fun_upd_def)
  qed
next
  case EOF
  then show ?case by (simp add: map_upd_triv)
next
  case (Fail x)
  then show ?case by simp
qed

lemma TempFile_created:
  assumes "TempFile E d prefix s = Inr (tmp, s0)"
  shows "files s tmp = None" and "tmp \<notin> dirs s"
    and "s0 = s\<lparr>files := (files s)(tmp \<mapsto> \<lparr>contents = [], mode = mode_0600\<rparr>)\<rparr>"
    and "Remove tmp s0 = s" and "\<exists>x. tmp = d @ [prefix @ x]"
proof -
  from assms have f: "find (\<lambda>name. files s name = None \<and> name \<notin> dirs s)
                        (map (\<lambda>x. d @ [prefix @ x]) (suffixes E)) = Some tmp"
    and s0: "s0 = s\<lparr>files := (files s)(tmp \<mapsto> \<lparr>contents = [], mode = mode_0600\<rparr>)\<rparr>"
    by (auto simp add: TempFile_def split: option.splits)
  from f obtain i where i: "i < length (suffixes E)" "tmp = d @ [prefix @ suffixes E ! i]"
    "files s tmp = None \<and> tmp \<notin> dirs s"
    by (auto simp add: find_Some_iff)
  from i show n: "files s tmp = None" and "tmp \<notin> dirs s" by simp_all
  from s0 show "s0 = s\<lparr>files := (files s)(tmp \<mapsto> \<lparr>contents = [], mode = mode_0600\<rparr>)\<rparr>" .
  from s0 n show "Remove tmp s0 = s"
    by (simp add: Remove_def fun_upd_idem)
  from i show "\<exists>x. tmp = d @ [prefix @ x]" by blast
qed

lemma Remove_staged: "staged E tmp stream s0 = (r, s2) \<Longrightarrow> Remove tmp s2 = Remove tmp s0"
proof -
  assume a: "staged E tmp stream s0 = (r, s2)"
  obtain res h s1 where c: "io_Copy E tmp stream [] 0 s0 = (res, h, s1)"
    by (rule prod_cases3)
  then have f1: "Remove tmp s1 = Remove tmp s0" by (rule Remove_io_Copy)
  obtain e' s' where m: "Chmod E tmp mode_0644 s1 = (e', s')" by (rule prod.exhaust)
  then have f2: "Remove tmp s' = Remove tmp s1" by (rule Remove_Chmod)
  from a c m have "s2 = s1 \<or> s2 = s'"
    by (cases res) (auto simp add: staged_def split: option.splits)
  with f1 f2 show ?thesis by auto
qed

lemma staged_stream_error:
  assumes "stream_error stream = Some e"
  shows "\<exists>err. fst (staged E tmp stream s0) = Inl err"
proof -
  obtain res h s1 where c: "io_Copy E tmp stream [] 0 s0 = (res, h, s1)"
    by (rule prod_cases3)
  with io_Copy_stream_error [OF assms, of E tmp "[]" 0 s0] obtain written err where "res = (written, Some err)"
    by (cases res) auto
  with c show ?thesis by (simp add: staged_def)
qed

lemma staged_complete:
  assumes "stream_error stream = None" and "\<forall>call. fault E call = None"
    and "files s0 tmp = Some f"
  shows "staged E tmp stream s0 =
           (Inr (stream_bytes stream, int (length (stream_bytes stream))),
            s0\<lparr>files := (files s0)(tmp \<mapsto> \<lparr>contents = contents f @ stream_bytes stream, mode = mode_0644\<rparr>)\<rparr>)"
proof -
  have "io_Copy E tmp stream [] 0 s0 =
          ((0 + int (length (stream_bytes stream)), None), [] @ stream_bytes stream,
           s0\<lparr>files := (files s0)(tmp \<mapsto> f\<lparr>contents := contents f @ stream_bytes stream\<rparr>)\<rparr>)"
    using assms by (intro io_Copy_complete) simp_all
  then show ?thesis
    using assms(2) by (simp add: staged_def Sync_def Chmod_def regular_updates)
qed

lemma dirs_Remove: "dirs (Remove f s) = dirs s" and files_Remove: "files (Remove f s) = (files s)(f := None)"
  by (simp_all add: Remove_def)

lemma dir_PutBlob_body_staged:
  "dir_PutBlob_body E d stream tmp s0 =
     (case staged E tmp stream s0 of
        (Inl err, s') \<Rightarrow> (('''', - 1, Some err), False, s')
      | (Inr (h, written), s2) \<Rightarrow>
          (case Rename E tmp (layerPath (dir_ref d) (EncodeToString (sha256_Sum h))) s2 of
             (Some err, s3) \<Rightarrow> (('''', - 1, Some err), False, s3)
           | (None, s3) \<Rightarrow> ((EncodeToString (sha256_Sum h), written, None), True, s3)))"
  by (simp add: dir_PutBlob_body_def staged_def Let_def split: prod.split option.split)

lemma oci_PutBlob_body_staged:
  "oci_PutBlob_body E d stream tmp s0 =
     (case staged E tmp stream s0 of
        (Inl err, s') \<Rightarrow> (('''', - 1, Some err), False, s')
      | (Inr (h, written), s2) \<Rightarrow>
          (case blobPath (oci_ref d) (''sha256:'' @ EncodeToString (sha256_Sum h)) of
             Inl err \<Rightarrow> (('''', - 1, Some err), False, s2)
           | Inr blobPath' \<Rightarrow>
               (case ensureParentDirectoryExists E blobPath' s2 of
                  (Some err, s3) \<Rightarrow> (('''', - 1, Some err), False, s3)
                | (None, s3) \<Rightarrow>
                    (case Rename E tmp blobPath' s3 of
                       (Some err, s4) \<Rightarrow> (('''', - 1, Some err), False, s4)
                     | (None, s4) \<Rightarrow> ((''sha256:'' @ EncodeToString (sha256_Sum h), written, None), True, s4)))))"
  by (simp add: oci_PutBlob_body_def staged_def Let_def split: prod.split option.split sum.split)

lemma ensureParentDirectoryExists_files:
  "ensureParentDirectoryExists E p s = (r, s') \<Longrightarrow> files s' = files s \<and> dirs s \<subseteq> dirs s'"
  by (auto simp add: ensureParentDirectoryExists_def MkdirAll_def Let_def split: if_splits option.splits)

lemma dir_PutBlob_body_failed:
  assumes "dir_PutBlob_body E d stream tmp s0 = (ret, ok, s1)" and "snd (snd ret) \<noteq> None \<or> \<not> ok"
  shows "fst ret = '''' \<and> fst (snd ret) = - 1 \<and> snd (snd ret) \<noteq> None \<and> \<not> ok \<and> Remove tmp s1 = Remove tmp s0"
proof -
  obtain r s2 where st: "staged E tmp stream s0 = (r, s2)" by (rule prod.exhaust)
  then have f: "Remove tmp s2 = Remove tmp s0" by (rule Remove_staged)
  show ?thesis
  proof (cases r)
    case (Inl err)
    with assms st f show ?thesis by (auto simp add: dir_PutBlob_body_staged)
  next
    case (Inr hw)
    obtain h written where hw: "hw = (h, written)" by (rule prod.exhaust)
    obtain e s3 where rn: "Rename E tmp (layerPath (dir_ref d) (EncodeToString (sha256_Sum h))) s2 = (e, s3)"
      by (rule prod.exhaust)
    show ?thesis
    proof (cases e)
      case None
      with assms st Inr hw rn show ?thesis by (auto simp add: dir_PutBlob_body_staged)
    next
      case (Some err)
      with rn have "s3 = s2" by (simp add: Rename_failed)
      with assms st Inr hw rn Some f show ?thesis by (auto simp add: dir_PutBlob_body_staged)
    qed
  qed
qed

lemma oci_PutBlob_body_failed:
  assumes "oci_PutBlob_body E d stream tmp s0 = (ret, ok, s1)" and "snd (snd ret) \<noteq> None \<or> \<not> ok"
  shows "fst ret = '''' \<and> fst (snd ret) = - 1 \<and> snd (snd ret) \<noteq> None \<and> \<not> ok
         \<and> files (Remove tmp s1) = files (Remove tmp s0) \<and> dirs s0 \<subseteq> dirs s1"
proof -
  obtain r s2 where st: "staged E tmp stream s0 = (r, s2)" by (rule prod.exhaust)
  then have f: "Remove tmp s2 = Remove tmp s0" by (rule Remove_staged)
  then have d: "dirs s2 = dirs s0" by (metis dirs_Remove)
  show ?thesis
  proof (cases r)
    case (Inl err)
    with assms st f d show ?thesis by (auto simp add: oci_PutBlob_body_staged)
  next
    case (Inr hw)
    obtain h written where hw: "hw = (h, written)" by (rule prod.exhaust)
    show ?thesis
    proof (cases "blobPath (oci_ref d) (''sha256:'' @ EncodeToString (sha256_Sum h))")
      case (Inl err)
      with assms st Inr hw f d show ?thesis by (auto simp add: oci_PutBlob_body_staged)
    next
      case bp: (Inr blobPath')
      obtain e3 s3 where en: "ensureParentDirectoryExists E blobPath' s2 = (e3, s3)"
        by (rule prod.exhaust)
      then have f3: "files s3 = files s2" "dirs s2 \<subseteq> dirs s3"
        by (simp_all add: ensureParentDirectoryExists_files)
      have g: "(files s2)(tmp := None) = (files s0)(tmp := None)"
        using f by (metis files_Remove)
      from f3 g d have r3: "files (Remove tmp s3) = files (Remove tmp s0)" "dirs s0 \<subseteq> dirs s3"
        by (simp_all add: files_Remove)
      show ?thesis
      proof (cases e3)
        case (Some err)
        with assms st Inr hw bp en r3 show ?thesis by (auto simp add: oci_PutBlob_body_staged)
      next
        case None
        obtain e s4 where rn: "Rename E tmp blobPath' s3 = (e, s4)" by (rule prod.exhaust)
        show ?thesis
        proof (cases e)
          case n: None
          with assms st Inr hw bp en None rn show ?thesis by (auto simp add: oci_PutBlob_body_staged)
        next
          case (Some err)
          with rn have "s4 = s3" by (simp add: Rename_failed)
          with assms st Inr hw bp en None rn Some r3 show ?thesis
            by (auto simp add: oci_PutBlob_body_staged)
        qed
      qed
    qed
  qed
qed

lemma EncodeToString_hextable: "set (EncodeToString src) \<subseteq> set hextable"
proof -
  have "hextable ! n \<in> set hextable" if "n < 16" for n
    using that by (intro nth_mem) (simp add: hextable_def)
  moreover have "(of_char v :: nat) div 16 < 16" for v
    using nat_of_char_less_256 [of v] by (simp add: less_mult_imp_div_less)
  ultimately show ?thesis
    by (auto simp add: EncodeToString_def)
qed

lemma tmp_name_not_hex: "''dir-put-blob'' @ x \<noteq> EncodeToString src"
proof
  assume "''dir-put-blob'' @ x = EncodeToString src"
  then have "CHR ''i'' \<in> set (EncodeToString src)"
    by (metis append_Cons in_set_conv_decomp list.set_intros(1,2))
  with EncodeToString_hextable have "CHR ''i'' \<in> set hextable" by blast
  then show False by (simp add: hextable_def)
qed

lemma dir_PutBlob_failed:
  assumes "dir_PutBlob E d stream digest s = (ret, s')" and "snd (snd ret) \<noteq> None"
  shows "fst ret = '''' \<and> fst (snd ret) = - 1 \<and> s' = s"
proof (cases "TempFile E (ref_path (dir_ref d)) ''dir-put-blob'' s")
  case (Inl err)
  with assms show ?thesis by (auto simp add: dir_PutBlob_def)
next
  case (Inr a)
  obtain tmp s0 where a: "a = (tmp, s0)" by (rule prod.exhaust)
  with Inr have rm: "Remove tmp s0 = s" by (simp add: TempFile_created)
  obtain r ok s1 where b: "dir_PutBlob_body E d stream tmp s0 = (r, ok, s1)" by (rule prod_cases3)
  with assms Inr a have "r = ret" by (simp add: dir_PutBlob_def)
  with b assms(2) have "fst ret = '''' \<and> fst (snd ret) = - 1 \<and> \<not> ok \<and> Remove tmp s1 = Remove tmp s0"
    using dir_PutBlob_body_failed [of E d stream tmp s0 ret ok s1] by simp
  with assms Inr a b rm show ?thesis by (simp add: dir_PutBlob_def)
qed

lemma oci_PutBlob_failed:
  assumes "oci_PutBlob E d stream digest s = (ret, s')" and "snd (snd ret) \<noteq> None"
  shows "fst ret = '''' \<and> fst (snd ret) = - 1 \<and> files s' = files s \<and> dirs s \<subseteq> dirs s'"
proof (cases "TempFile E (ref_dir (oci_ref d)) ''oci-put-blob'' s")
  case (Inl err)
  with assms show ?thesis by (auto simp add: oci_PutBlob_def)
next
  case (Inr a)
  obtain tmp s0 where a: "a = (tmp, s0)" by (rule prod.exhaust)
  with Inr have rm: "Remove tmp s0 = s" by (simp add: TempFile_created)
  then have ds: "dirs s0 = dirs s" by (metis dirs_Remove)
  obtain r ok s1 where b: "oci_PutBlob_body E d stream tmp s0 = (r, ok, s1)" by (rule prod_cases3)
  with assms Inr a have "r = ret" by (simp add: oci_PutBlob_def)
  with b assms(2) have "fst ret = '''' \<and> fst (snd ret) = - 1 \<and> \<not> ok
      \<and> files (Remove tmp s1) = files (Remove tmp s0) \<and> dirs s0 \<subseteq> dirs s1"
    using oci_PutBlob_body_failed [of E d stream tmp s0 ret ok s1] by simp
  with assms Inr a b rm ds show ?thesis by (auto simp add: oci_PutBlob_def dirs_Remove)
qed

lemma dir_write_aborted:
  assumes "stream_error stream = Some e"
  shows "\<exists>err. dir_PutBlob E d stream digest s = (('''', - 1, Some err), s)"
proof (cases "TempFile E (ref_path (dir_ref d)) ''dir-put-blob'' s")
  case (Inl err)
  then show ?thesis by (simp add: dir_PutBlob_def)
next
  case (Inr a)
  obtain tmp s0 where a: "a = (tmp, s0)" by (rule prod.exhaust)
  with Inr have rm: "Remove tmp s0 = s" by (simp add: TempFile_created)
  obtain r s2 where st: "staged E tmp stream s0 = (r, s2)" by (rule prod.exhaust)
  then have f: "Remove tmp s2 = Remove tmp s0" by (rule Remove_staged)
  from staged_stream_error [OF assms, of E tmp s0] st obtain err where "r = Inl err" by auto
  with Inr a st f rm show ?thesis
    by (simp add: dir_PutBlob_def dir_PutBlob_body_staged)
qed

lemma oci_write_aborted:
  assumes "stream_error stream = Some e"
  shows "\<exists>err. oci_PutBlob E d stream digest s = (('''', - 1, Some err), s)"
proof (cases "TempFile E (ref_dir (oci_ref d)) ''oci-put-blob'' s")
  case (Inl err)
  then show ?thesis by (simp add: oci_PutBlob_def)
next
  case (Inr a)
  obtain tmp s0 where a: "a = (tmp, s0)" by (rule prod.exhaust)
  with Inr have rm: "Remove tmp s0 = s" by (simp add: TempFile_created)
  obtain r s2 where st: "staged E tmp stream s0 = (r, s2)" by (rule prod.exhaust)
  then have f: "Remove tmp s2 = Remove tmp s0" by (rule Remove_staged)
  from staged_stream_error [OF assms, of E tmp s0] st obtain err where "r = Inl err" by auto
  with Inr a st f rm show ?thesis
    by (simp add: oci_PutBlob_def oci_PutBlob_body_staged)
qed

lemma dir_PutBlob_complete:
  assumes "stream_error stream = None" and "\<forall>call. fault E call = None"
    and "TempFile E (ref_path (dir_ref d)) ''dir-put-blob'' s = Inr (tmp, s0)"
  shows "dir_PutBlob E d stream digest s =
           ((EncodeToString (sha256_Sum (stream_bytes stream)), int (length (stream_bytes stream)), None),
            s\<lparr>files := (files s)(layerPath (dir_ref d) (EncodeToString (sha256_Sum (stream_bytes stream)))
                  \<mapsto> \<lparr>contents = stream_bytes stream, mode = mode_0644\<rparr>)\<rparr>)"
proof -
  let ?B = "stream_bytes stream"
  let ?bp = "layerPath (dir_ref d) (EncodeToString (sha256_Sum ?B))"
  let ?r = "\<lparr>contents = ?B, mode = mode_0644\<rparr>"
  from assms(3) have n: "files s tmp = None"
    and s0: "s0 = s\<lparr>files := (files s)(tmp \<mapsto> \<lparr>contents = [], mode = mode_0600\<rparr>)\<rparr>"
    and x: "\<exists>x. tmp = ref_path (dir_ref d) @ [''dir-put-blob'' @ x]"
    by (rule TempFile_created)+
  from x have ne: "tmp \<noteq> ?bp"
    using tmp_name_not_hex by (auto simp add: layerPath_def simp del: append.simps)
  have "files s0 tmp = Some \<lparr>contents = [], mode = mode_0600\<rparr>" using s0 by simp
  from staged_complete [OF assms(1,2) this]
  have st: "staged E tmp stream s0 = (Inr (?B, int (length ?B)), s0\<lparr>files := (files s0)(tmp \<mapsto> ?r)\<rparr>)"
    by simp
  have rn: "Rename E tmp ?bp (s0\<lparr>files := (files s0)(tmp \<mapsto> ?r)\<rparr>)
              = (None, s\<lparr>files := (files s)(?bp \<mapsto> ?r)\<rparr>)"
  proof -
    have "((files s0)(tmp \<mapsto> ?r))(?bp \<mapsto> ?r, tmp := None) = (files s)(?bp \<mapsto> ?r)"
      using n ne s0 by (intro ext) simp
    then show ?thesis
      using assms(2) ne s0 by (simp add: Rename_def)
  qed
  show ?thesis
    using assms(3) st rn by (simp add: dir_PutBlob_def dir_PutBlob_body_staged)
qed

lemma blobPath_sha256: "blobPath ref (''sha256:'' @ x) = Inr (ref_dir ref @ [''blobs'', ''sha256'', x])"
  by (simp add: blobPath_def)

lemma oci_PutBlob_complete:
  assumes "stream_error stream = None" and "\<forall>call. fault E call = None"
    and "TempFile E (ref_dir (oci_ref d)) ''oci-put-blob'' s = Inr (tmp, s0)"
  shows "\<exists>s'. oci_PutBlob E d stream digest s =
                 ((''sha256:'' @ EncodeToString (sha256_Sum (stream_bytes stream)),
                   int (length (stream_bytes stream)), None), s')
             \<and> files s' = (files s)(ref_dir (oci_ref d) @ [''blobs'', ''sha256'', EncodeToString (sha256_Sum (stream_bytes stream))]
                               \<mapsto> \<lparr>contents = stream_bytes stream, mode = mode_0644\<rparr>)
             \<and> dirs s \<subseteq> dirs s'"
proof -
  let ?B = "stream_bytes stream"
  let ?bp = "ref_dir (oci_ref d) @ [''blobs'', ''sha256'', EncodeToString (sha256_Sum ?B)]"
  let ?r = "\<lparr>contents = ?B, mode = mode_0644\<rparr>"
  from assms(3) have n: "files s tmp = None"
    and s0: "s0 = s\<lparr>files := (files s)(tmp \<mapsto> \<lparr>contents = [], mode = mode_0600\<rparr>)\<rparr>"
    and x: "\<exists>x. tmp = ref_dir (oci_ref d) @ [''oci-put-blob'' @ x]"
    by (rule TempFile_created)+
  from x have ne: "tmp \<noteq> ?bp" by auto
  let ?s2 = "s0\<lparr>files := (files s0)(tmp \<mapsto> ?r)\<rparr>"
  have "files s0 tmp = Some \<lparr>contents = [], mode = mode_0600\<rparr>" using s0 by simp
  from staged_complete [OF assms(1,2) this]
  have st: "staged E tmp stream s0 = (Inr (?B, int (length ?B)), ?s2)"
    by simp
  obtain e3 s3 where en: "ensureParentDirectoryExists E ?bp ?s2 = (e3, s3)" by (rule prod.exhaust)
  have f3: "files s3 = files ?s2" "dirs ?s2 \<subseteq> dirs s3"
    using ensureParentDirectoryExists_files [OF en] by simp_all
  from en assms(2) have e3: "e3 = None"
    by (auto simp add: ensureParentDirectoryExists_def MkdirAll_def Let_def split: if_splits)
  let ?s4 = "s3\<lparr>files := (files s3)(?bp \<mapsto> ?r, tmp := None)\<rparr>"
  have rn: "Rename E tmp ?bp s3 = (None, ?s4)"
    using assms(2) ne f3 by (simp add: Rename_def)
  have "files ?s4 = (files s)(?bp \<mapsto> ?r)"
    using n ne s0 f3 by (intro ext) simp
  moreover have "dirs s \<subseteq> dirs ?s4" using f3 s0 by simp
  moreover have "oci_PutBlob E d stream digest s =
      ((''sha256:'' @ EncodeToString (sha256_Sum ?B), int (length ?B), None), ?s4)"
    using assms(3) st en e3 rn
    by (simp add: oci_PutBlob_def oci_PutBlob_body_staged blobPath_sha256 del: append.simps)
  ultimately show ?thesis by blast
qed

lemma io_Copy_succeeded:
  assumes "io_Copy E dst r h w s = ((w', None), h', s')" and "files s dst = Some f"
  shows "stream_error r = None \<and> w' = w + int (length (stream_bytes r)) \<and> h' = h @ stream_bytes r
         \<and> s' = s\<lparr>files := (files s)(dst \<mapsto> f\<lparr>contents := contents f @ stream_bytes r\<rparr>)\<rparr>"
  using assms
proof (induction r arbitrary: h w s f)
  case (Data p r)
  show ?case
  proof (cases "p = []")
    case True
    with Data.prems have "io_Copy E dst r h w s = ((w', None), h', s')" by simp
    from Data.IH [OF this Data.prems(2)] True show ?thesis by simp
  next
    case False
    let ?f1 = "f\<lparr>contents := contents f @ p\<rparr>"
    let ?s1 = "s\<lparr>files := (files s)(dst \<mapsto> ?f1)\<rparr>"
    have e: "?s1\<lparr>files := (files ?s1)(dst \<mapsto> X)\<rparr> = s\<lparr>files := (files s)(dst \<mapsto> X)\<rparr>" for X
      by simp
    from Data.prems False have nf: "fault E (SysWrite dst (length (contents f))) = None"
      by (auto simp add: Write_def split: option.splits)
    then have w: "Write E dst p s = (None, ?s1)"
      using Data.prems(2) by (simp add: Write_def)
    with Data.prems(1) False have c: "io_Copy E dst r (h @ p) (w + int (length p)) ?s1 = ((w', None), h', s')"
      by simp
    have "files ?s1 dst = Some ?f1" by simp
    from Data.IH [OF c this]
    have ih: "stream_error r = None" "w' = w + int (length p) + int (length (stream_bytes r))"
      "h' = (h @ p) @ stream_bytes r"
      and s': "s' = ?s1\<lparr>files := (files ?s1)(dst \<mapsto> ?f1\<lparr>contents := contents ?f1 @ stream_bytes r\<rparr>)\<rparr>"
      by blast+
    have "s' = s\<lparr>files := (files s)(dst \<mapsto> f\<lparr>contents := contents f @ p @ stream_bytes r\<rparr>)\<rparr>"
      unfolding s' e by simp
    with ih show ?thesis by (simp add: fun_upd_def)
  qed
next
  case EOF
  then show ?case by (simp add: map_upd_triv)
next
  case (Fail x)
  then show ?case by simp
qed

lemma staged_succeeded:
  assumes "staged E tmp stream s0 = (Inr (h, written), s2)" and "files s0 tmp = Some f"
  shows "stream_error stream = None \<and> h = stream_bytes stream \<and> written = int (length (stream_bytes stream))
         \<and> s2 = s0\<lparr>files := (files s0)(tmp \<mapsto> \<lparr>contents = contents f @ stream_bytes stream, mode = mode_0644\<rparr>)\<rparr>"
proof -
  obtain res h1 s1 where c: "io_Copy E tmp stream [] 0 s0 = (res, h1, s1)"
    by (rule prod_cases3)
  obtain w1 e1 where r: "res = (w1, e1)" by (rule prod.exhaust)
  from assms(1) c r have e1: "e1 = None"
    by (cases e1) (simp_all add: staged_def)
  from io_Copy_succeeded [OF c [unfolded r e1] assms(2)]
  have i: "stream_error stream = None" "w1 = int (length (stream_bytes stream))" "h1 = stream_bytes stream"
    "s1 = s0\<lparr>files := (files s0)(tmp \<mapsto> f\<lparr>contents := contents f @ stream_bytes stream\<rparr>)\<rparr>"
    by simp_all
  from assms(1) c r e1 i show ?thesis
    by (auto simp add: staged_def Sync_def Chmod_def regular_updates split: option.splits)
qed

lemma Rename_succeeded:
  "Rename E old new s = (None, s') \<Longrightarrow> files s old = Some r \<Longrightarrow> files s' new = Some r"
  by (auto simp add: Rename_def split: option.splits if_splits)

lemma dir_PutBlob_succeeded:
  assumes "dir_PutBlob E d stream digest s = ((dg, sz, None), s')"
  shows "stream_error stream = None \<and> dg = EncodeToString (sha256_Sum (stream_bytes stream))
         \<and> sz = int (length (stream_bytes stream))
         \<and> files s' (layerPath (dir_ref d) dg) = Some \<lparr>contents = stream_bytes stream, mode = mode_0644\<rparr>"
proof (cases "TempFile E (ref_path (dir_ref d)) ''dir-put-blob'' s")
  case (Inl err)
  with assms show ?thesis by (simp add: dir_PutBlob_def)
next
  case (Inr a)
  obtain tmp s0 where a: "a = (tmp, s0)" by (rule prod.exhaust)
  with Inr have f0: "files s0 tmp = Some \<lparr>contents = [], mode = mode_0600\<rparr>"
    using TempFile_created(3) [of E "ref_path (dir_ref d)" "''dir-put-blob''" s tmp s0] by simp
  obtain r s2 where st: "staged E tmp stream s0 = (r, s2)" by (rule prod.exhaust)
  show ?thesis
  proof (cases r)
    case (Inl err)
    with assms Inr a st show ?thesis by (simp add: dir_PutBlob_def dir_PutBlob_body_staged)
  next
    case r: (Inr hw)
    obtain h written where hw: "hw = (h, written)" by (rule prod.exhaust)
    from staged_succeeded [OF st [unfolded r hw] f0]
    have i: "stream_error stream = None" "h = stream_bytes stream" "written = int (length (stream_bytes stream))"
      and f2: "files s2 tmp = Some \<lparr>contents = stream_bytes stream, mode = mode_0644\<rparr>"
      by simp_all
    obtain e s3 where rn: "Rename E tmp (layerPath (dir_ref d) (EncodeToString (sha256_Sum h))) s2 = (e, s3)"
      by (rule prod.exhaust)
    show ?thesis
    proof (cases e)
      case (Some err)
      with assms Inr a st r hw rn show ?thesis by (simp add: dir_PutBlob_def dir_PutBlob_body_staged)
    next
      case None
      with rn f2 have "files s3 (layerPath (dir_ref d) (EncodeToString (sha256_Sum h)))
                         = Some \<lparr>contents = stream_bytes stream, mode = mode_0644\<rparr>"
        by (simp add: Rename_succeeded)
      with assms Inr a st r hw rn None i show ?thesis
        by (auto simp add: dir_PutBlob_def dir_PutBlob_body_staged)
    qed
  qed
qed

lemma oci_PutBlob_succeeded:
  assumes "oci_PutBlob E d stream digest s = ((dg, sz, None), s')"
  shows "stream_error stream = None \<and> dg = ''sha256:'' @ EncodeToString (sha256_Sum (stream_bytes stream))
         \<and> sz = int (length (stream_bytes stream))
         \<and> files s' (ref_dir (oci_ref d) @ [''blobs'', ''sha256'', EncodeToString (sha256_Sum (stream_bytes stream))])
             = Some \<lparr>contents = stream_bytes stream, mode = mode_0644\<rparr>"
proof (cases "TempFile E (ref_dir (oci_ref d)) ''oci-put-blob'' s")
  case (Inl err)
  with assms show ?thesis by (simp add: oci_PutBlob_def)
next
  case (Inr a)
  obtain tmp s0 where a: "a = (tmp, s0)" by (rule prod.exhaust)
  with Inr have f0: "files s0 tmp = Some \<lparr>contents = [], mode = mode_0600\<rparr>"
    using TempFile_created(3) [of E "ref_dir (oci_ref d)" "''oci-put-blob''" s tmp s0] by simp
  obtain r s2 where st: "staged E tmp stream s0 = (r, s2)" by (rule prod.exhaust)
  show ?thesis
  proof (cases r)
    case (Inl err)
    with assms Inr a st show ?thesis by (simp add: oci_PutBlob_def oci_PutBlob_body_staged)
  next
    case r: (Inr hw)
    obtain h written where hw: "hw = (h, written)" by (rule prod.exhaust)
    from staged_succeeded [OF st [unfolded r hw] f0]
    have i: "stream_error stream = None" "h = stream_bytes stream" "written = int (length (stream_bytes stream))"
      and f2: "files s2 tmp = Some \<lparr>contents = stream_bytes stream, mode = mode_0644\<rparr>"
      by simp_all
    let ?bp = "ref_dir (oci_ref d) @ [''blobs'', ''sha256'', EncodeToString (sha256_Sum h)]"
    obtain e3 s3 where en: "ensureParentDirectoryExists E ?bp s2 = (e3, s3)" by (rule prod.exhaust)
    have f3: "files s3 tmp = Some \<lparr>contents = stream_bytes stream, mode = mode_0644\<rparr>"
      using ensureParentDirectoryExists_files [OF en] f2 by simp
    obtain e s4 where rn: "Rename E tmp ?bp s3 = (e, s4)" by (rule prod.exhaust)
    show ?thesis
    proof (cases e3)
      case (Some err)
      with assms Inr a st r hw en show ?thesis
        by (simp add: oci_PutBlob_def oci_PutBlob_body_staged blobPath_sha256 del: append.simps)
    next
      case n3: None
      show ?thesis
      proof (cases e)
        case (Some err)
        with assms Inr a st r hw en n3 rn show ?thesis
          by (simp add: oci_PutBlob_def oci_PutBlob_body_staged blobPath_sha256 del: append.simps)
      next
        case None
        with rn f3 have "files s4 ?bp = Some \<lparr>contents = stream_bytes stream, mode = mode_0644\<rparr>"
          by (simp add: Rename_succeeded)
        with assms Inr a st r hw en n3 rn None i show ?thesis
          by (auto simp add: oci_PutBlob_def oci_PutBlob_body_staged blobPath_sha256 simp del: append.simps)
      qed
    qed
  qed
qed

lemmas run_defs =
  dir_PutBlob_def dir_PutBlob_body_def oci_PutBlob_def oci_PutBlob_body_def TempFile_def Write_def
  Sync_def Chmod_def Rename_def Remove_def ensureParentDirectoryExists_def MkdirAll_def
  blobPath_def Let_def layerPath_def quiet_def rename_fails_def empty_fs_def dir_dest_def oci_dest_def

text \<open>
  C1, as the code has it. Let \<open>B\<close> be the bytes of the stream. Whenever \<^verbatim>\<open>PutBlob\<close> returns
  no error, the stream was read without error, the size returned is \<open>length B\<close>, the
  directory destination returns the bare digest \<open>hex (sha256 B)\<close>, without the prefix
  \<^verbatim>\<open>sha256:\<close>, the OCI layout destination returns \<^verbatim>\<open>sha256:\<close> followed by
  \<open>hex (sha256 B)\<close>, and the file at the final content-addressed path (\<^verbatim>\<open><dir>/<hex>\<close>,
  resp. \<^verbatim>\<open><dir>/blobs/sha256/<hex>\<close>) holds \<open>B\<close> with mode 0644. And \<^verbatim>\<open>PutBlob\<close> does
  return no error when the stream ends without error, no system call fails and the temporary
  file can be created; that file is then the only change to the file system of the directory
  destination, and the only change to the files of the OCI one.
\<close>

theorem PutBlob_content_addressed:
  "(dir_PutBlob E d stream digest s = ((dg, sz, None), s1) \<longrightarrow>
      stream_error stream = None
      \<and> dg = EncodeToString (sha256_Sum (stream_bytes stream))
      \<and> sz = int (length (stream_bytes stream))
      \<and> files s1 (layerPath (dir_ref d) dg) = Some \<lparr>contents = stream_bytes stream, mode = mode_0644\<rparr>)
   \<and> (oci_PutBlob E d' stream digest' s = ((dg', sz', None), s1') \<longrightarrow>
      stream_error stream = None
      \<and> dg' = ''sha256:'' @ EncodeToString (sha256_Sum (stream_bytes stream))
      \<and> sz' = int (length (stream_bytes stream))
      \<and> files s1' (ref_dir (oci_ref d') @ [''blobs'', ''sha256'', EncodeToString (sha256_Sum (stream_bytes stream))])
           = Some \<lparr>contents = stream_bytes stream, mode = mode_0644\<rparr>)
   \<and> (stream_error stream = None \<and> (\<forall>call. fault E call = None)
       \<and> TempFile E (ref_path (dir_ref d)) ''dir-put-blob'' s = Inr (tmp, s0) \<longrightarrow>
         dir_PutBlob E d stream digest s =
           ((EncodeToString (sha256_Sum (stream_bytes stream)), int (length (stream_bytes stream)), None),
            s\<lparr>files := (files s)(layerPath (dir_ref d) (EncodeToString (sha256_Sum (stream_bytes stream)))
                  \<mapsto> \<lparr>contents = stream_bytes stream, mode = mode_0644\<rparr>)\<rparr>))
   \<and> (stream_error stream = None \<and> (\<forall>call. fault E call = None)
       \<and> TempFile E (ref_dir (oci_ref d')) ''oci-put-blob'' s = Inr (tmp', s0') \<longrightarrow>
         (\<exists>s'. oci_PutBlob E d' stream digest' s =
                 ((''sha256:'' @ EncodeToString (sha256_Sum (stream_bytes stream)),
                   int (length (stream_bytes stream)), None), s')
             \<and> files s' = (files s)(ref_dir (oci_ref d') @ [''blobs'', ''sha256'', EncodeToString (sha256_Sum (stream_bytes stream))]
                               \<mapsto> \<lparr>contents = stream_bytes stream, mode = mode_0644\<rparr>)
             \<and> dirs s \<subseteq> dirs s'))"
proof (intro conjI impI)
  assume "dir_PutBlob E d stream digest s = ((dg, sz, None), s1)"
  from dir_PutBlob_succeeded [OF this]
  show "stream_error stream = None" "dg = EncodeToString (sha256_Sum (stream_bytes stream))"
    "sz = int (length (stream_bytes stream))"
    "files s1 (layerPath (dir_ref d) dg) = Some \<lparr>contents = stream_bytes stream, mode = mode_0644\<rparr>"
    by blast+
next
  assume "oci_PutBlob E d' stream digest' s = ((dg', sz', None), s1')"
  from oci_PutBlob_succeeded [OF this]
  show "stream_error stream = None" "dg' = ''sha256:'' @ EncodeToString (sha256_Sum (stream_bytes stream))"
    "sz' = int (length (stream_bytes stream))"
    "files s1' (ref_dir (oci_ref d') @ [''blobs'', ''sha256'', EncodeToString (sha256_Sum (stream_bytes stream))])
           = Some \<lparr>contents = stream_bytes stream, mode = mode_0644\<rparr>"
    by blast+
next
  assume "stream_error stream = None \<and> (\<forall>call. fault E call = None)
       \<and> TempFile E (ref_path (dir_ref d)) ''dir-put-blob'' s = Inr (tmp, s0)"
  then show "dir_PutBlob E d stream digest s =
           ((EncodeToString (sha256_Sum (stream_bytes stream)), int (length (stream_bytes stream)), None),
            s\<lparr>files := (files s)(layerPath (dir_ref d) (EncodeToString (sha256_Sum (stream_bytes stream)))
                  \<mapsto> \<lparr>contents = stream_bytes stream, mode = mode_0644\<rparr>)\<rparr>)"
    using dir_PutBlob_complete [of stream E d s tmp s0 digest] by blast
next
  assume "stream_error stream = None \<and> (\<forall>call. fault E call = None)
       \<and> TempFile E (ref_dir (oci_ref d')) ''oci-put-blob'' s = Inr (tmp', s0')"
  then show "\<exists>s'. oci_PutBlob E d' stream digest' s =
                 ((''sha256:'' @ EncodeToString (sha256_Sum (stream_bytes stream)),
                   int (length (stream_bytes stream)), None), s')
             \<and> files s' = (files s)(ref_dir (oci_ref d') @ [''blobs'', ''sha256'', EncodeToString (sha256_Sum (stream_bytes stream))]
                               \<mapsto> \<lparr>contents = stream_bytes stream, mode = mode_0644\<rparr>)
             \<and> dirs s \<subseteq> dirs s'"
    using oci_PutBlob_complete [of stream E d' s tmp' s0' digest'] by blast
qed

theorem PutBlob_content_addressed_witness:
  "dir_PutBlob quiet dir_dest (Data ''hel'' (Data ''lo'' EOF)) '''' empty_fs =
     ((''2cf24dba5fb0a30e26e83b2ac5b9e29e1b161e5c1fa7425e73043362938b9824'', 5, None),
      empty_fs\<lparr>files := [[''d'', ''2cf24dba5fb0a30e26e83b2ac5b9e29e1b161e5c1fa7425e73043362938b9824'']
                            \<mapsto> \<lparr>contents = ''hello'', mode = 420\<rparr>]\<rparr>)
   \<and> (\<exists>s'. oci_PutBlob quiet oci_dest (Data ''hel'' (Data ''lo'' EOF)) '''' empty_fs =
              ((''sha256:2cf24dba5fb0a30e26e83b2ac5b9e29e1b161e5c1fa7425e73043362938b9824'', 5, None), s')
          \<and> files s' = [[''layout'', ''blobs'', ''sha256'',
                          ''2cf24dba5fb0a30e26e83b2ac5b9e29e1b161e5c1fa7425e73043362938b9824'']
                           \<mapsto> \<lparr>contents = ''hello'', mode = 420\<rparr>])"
proof -
  let ?in = "Data ''hel'' (Data ''lo'' EOF)"
  let ?t = "[''d'', ''dir-put-blob123456789'']"
  let ?t' = "[''layout'', ''oci-put-blob123456789'']"
  let ?s0 = "empty_fs\<lparr>files := [?t \<mapsto> \<lparr>contents = [], mode = mode_0600\<rparr>]\<rparr>"
  let ?s0' = "empty_fs\<lparr>files := [?t' \<mapsto> \<lparr>contents = [], mode = mode_0600\<rparr>]\<rparr>"
  have 1: "stream_error ?in = None" by simp
  have 2: "\<forall>call. fault quiet call = None" by (simp add: quiet_def)
  have 3: "TempFile quiet (ref_path (dir_ref dir_dest)) ''dir-put-blob'' empty_fs = Inr (?t, ?s0)"
    by (simp add: run_defs)
  have 4: "TempFile quiet (ref_dir (oci_ref oci_dest)) ''oci-put-blob'' empty_fs = Inr (?t', ?s0')"
    by (simp add: run_defs)
  have 5: "stream_bytes ?in = ''hello''" by simp
  note t = PutBlob_content_addressed [where E = quiet and stream = ?in and d = dir_dest and s = empty_fs
      and tmp = ?t and ?s0.0 = ?s0 and digest = "''''" and d' = oci_dest and tmp' = ?t' and s0' = ?s0'
      and digest' = "''''"]
  from t 1 2 3 have a: "dir_PutBlob quiet dir_dest ?in '''' empty_fs =
      ((EncodeToString (sha256_Sum (stream_bytes ?in)), int (length (stream_bytes ?in)), None),
       empty_fs\<lparr>files := (files empty_fs)(layerPath (dir_ref dir_dest)
          (EncodeToString (sha256_Sum (stream_bytes ?in)))
             \<mapsto> \<lparr>contents = stream_bytes ?in, mode = mode_0644\<rparr>)\<rparr>)"
    by blast
  from t 1 2 4 obtain s' where b: "oci_PutBlob quiet oci_dest ?in '''' empty_fs =
         ((''sha256:'' @ EncodeToString (sha256_Sum (stream_bytes ?in)),
           int (length (stream_bytes ?in)), None), s')"
     "files s' = (files empty_fs)(ref_dir (oci_ref oci_dest) @ [''blobs'', ''sha256'',
           EncodeToString (sha256_Sum (stream_bytes ?in))]
             \<mapsto> \<lparr>contents = stream_bytes ?in, mode = mode_0644\<rparr>)"
    by blast
  from a have "dir_PutBlob quiet dir_dest ?in '''' empty_fs =
     ((''2cf24dba5fb0a30e26e83b2ac5b9e29e1b161e5c1fa7425e73043362938b9824'', 5, None),
      empty_fs\<lparr>files := [[''d'', ''2cf24dba5fb0a30e26e83b2ac5b9e29e1b161e5c1fa7425e73043362938b9824'']
                            \<mapsto> \<lparr>contents = ''hello'', mode = 420\<rparr>]\<rparr>)"
    unfolding 5 sha256_hello
    by (simp add: layerPath_def dir_dest_def empty_fs_def mode_0644_def)
  moreover from b have "oci_PutBlob quiet oci_dest ?in '''' empty_fs =
              ((''sha256:2cf24dba5fb0a30e26e83b2ac5b9e29e1b161e5c1fa7425e73043362938b9824'', 5, None), s')
          \<and> files s' = [[''layout'', ''blobs'', ''sha256'',
                          ''2cf24dba5fb0a30e26e83b2ac5b9e29e1b161e5c1fa7425e73043362938b9824'']
                           \<mapsto> \<lparr>contents = ''hello'', mode = 420\<rparr>]"
    unfolding 5 sha256_hello
    by (simp add: oci_dest_def empty_fs_def mode_0644_def)
  ultimately show ?thesis by blast
qed

text \<open>
  The claim as the spec words it fails for the directory destination: writing the five bytes
  \<^verbatim>\<open>hello\<close> returns the hex digest itself (the value the spec's blob round-trip scenario
  expects), which is not that digest with \<^verbatim>\<open>sha256:\<close> in front.
\<close>

theorem dir_PutBlob_digest_counterexample:
  "fst (fst (dir_PutBlob quiet dir_dest (Data ''hello'' EOF) '''' empty_fs))
     = ''2cf24dba5fb0a30e26e83b2ac5b9e29e1b161e5c1fa7425e73043362938b9824''
   \<and> fst (fst (dir_PutBlob quiet dir_dest (Data ''hello'' EOF) '''' empty_fs))
     \<noteq> ''sha256:'' @ EncodeToString (sha256_Sum ''hello'')"
proof -
  have "TempFile quiet (ref_path (dir_ref dir_dest)) ''dir-put-blob'' empty_fs =
             Inr ([''d'', ''dir-put-blob123456789''],
                  empty_fs\<lparr>files := [[''d'', ''dir-put-blob123456789''] \<mapsto> \<lparr>contents = [], mode = mode_0600\<rparr>]\<rparr>)"
    by (simp add: run_defs)
  then have "fst (fst (dir_PutBlob quiet dir_dest (Data ''hello'' EOF) '''' empty_fs))
     = EncodeToString (sha256_Sum ''hello'')"
    by (subst dir_PutBlob_complete) (simp_all add: quiet_def)
  then show ?thesis
    unfolding sha256_hello by simp
qed

text \<open>
  C2. When the stream ends with an error, after any number of bytes and whatever else fails,
  \<^verbatim>\<open>PutBlob\<close> of either destination returns an error (with the empty digest and size -1)
  and leaves the file system exactly as it found it: no file has come to exist at any
  path, the content-addressed one included, and the name of the temporary file the call
  created is free again.
\<close>

theorem PutBlob_stream_error:
  assumes "stream_error stream = Some e"
  shows "(\<exists>err. dir_PutBlob E d stream digest s = (('''', - 1, Some err), s))
       \<and> (\<forall>tmp s0. TempFile E (ref_path (dir_ref d)) ''dir-put-blob'' s = Inr (tmp, s0) \<longrightarrow>
             files (snd (dir_PutBlob E d stream digest s)) tmp = None)
       \<and> (\<exists>err. oci_PutBlob E d' stream digest' s = (('''', - 1, Some err), s))
       \<and> (\<forall>tmp s0. TempFile E (ref_dir (oci_ref d')) ''oci-put-blob'' s = Inr (tmp, s0) \<longrightarrow>
             files (snd (oci_PutBlob E d' stream digest' s)) tmp = None)"
proof -
  from dir_write_aborted [OF assms, of E d digest s]
  obtain err where a: "dir_PutBlob E d stream digest s = (('''', - 1, Some err), s)" ..
  from oci_write_aborted [OF assms, of E d' digest' s]
  obtain err' where b: "oci_PutBlob E d' stream digest' s = (('''', - 1, Some err'), s)" ..
  show ?thesis
    using a b by (auto dest: TempFile_created(1))
qed

theorem PutBlob_stream_error_witness:
  "dir_PutBlob quiet dir_dest (Data ''hel'' (Fail (ExternalError ''unexpected EOF''))) '''' empty_fs
     = (('''', - 1, Some (ExternalError ''unexpected EOF'')), empty_fs)
   \<and> files (snd (dir_PutBlob quiet dir_dest (Data ''hel'' (Fail (ExternalError ''unexpected EOF''))) '''' empty_fs))
       [''d'', ''dir-put-blob123456789''] = None
   \<and> oci_PutBlob quiet oci_dest (Data ''hel'' (Fail (ExternalError ''unexpected EOF''))) '''' empty_fs
     = (('''', - 1, Some (ExternalError ''unexpected EOF'')), empty_fs)
   \<and> files (snd (oci_PutBlob quiet oci_dest (Data ''hel'' (Fail (ExternalError ''unexpected EOF''))) '''' empty_fs))
       [''layout'', ''oci-put-blob123456789''] = None"
proof -
  let ?in = "Data ''hel'' (Fail (ExternalError ''unexpected EOF''))"
  let ?t = "[''d'', ''dir-put-blob123456789'']"
  let ?t' = "[''layout'', ''oci-put-blob123456789'']"
  let ?s0 = "empty_fs\<lparr>files := [?t \<mapsto> \<lparr>contents = [], mode = mode_0600\<rparr>]\<rparr>"
  let ?s0' = "empty_fs\<lparr>files := [?t' \<mapsto> \<lparr>contents = [], mode = mode_0600\<rparr>]\<rparr>"
  have 1: "stream_error ?in = Some (ExternalError ''unexpected EOF'')"
    by simp
  have 2: "snd (snd (fst (dir_PutBlob quiet dir_dest ?in '''' empty_fs))) = Some (ExternalError ''unexpected EOF'')"
    "snd (snd (fst (oci_PutBlob quiet oci_dest ?in '''' empty_fs))) = Some (ExternalError ''unexpected EOF'')"
    by (simp_all add: run_defs)
  have 3: "TempFile quiet (ref_path (dir_ref dir_dest)) ''dir-put-blob'' empty_fs = Inr (?t, ?s0)"
    by (simp add: run_defs)
  have 4: "TempFile quiet (ref_dir (oci_ref oci_dest)) ''oci-put-blob'' empty_fs = Inr (?t', ?s0')"
    by (simp add: run_defs)
  note t = PutBlob_stream_error [OF 1, of quiet dir_dest "''''" empty_fs oci_dest "''''"]
  from t 3 have "files (snd (dir_PutBlob quiet dir_dest ?in '''' empty_fs)) ?t = None" by blast
  moreover from t 4 have "files (snd (oci_PutBlob quiet oci_dest ?in '''' empty_fs)) ?t' = None" by blast
  moreover from t 2 have "dir_PutBlob quiet dir_dest ?in '''' empty_fs
     = (('''', - 1, Some (ExternalError ''unexpected EOF'')), empty_fs)"
    "oci_PutBlob quiet oci_dest ?in '''' empty_fs
     = (('''', - 1, Some (ExternalError ''unexpected EOF'')), empty_fs)"
    by auto
  ultimately show ?thesis by blast
qed

text \<open>
  C10. Whenever \<^verbatim>\<open>PutBlob\<close> of either destination returns an error - whichever step
  failed: creating the temporary file, the copy, sync, chmod, computing the path, creating
  the parent directories or the rename - the digest returned is the empty string, the size is
  -1, the files are those that were there before the call and the name of the temporary file
  is free again. (The directory destination leaves the whole file system as it was; the OCI
  one may have created the parent directories of the blob.)
\<close>

theorem PutBlob_failure_returns:
  "(dir_PutBlob E d stream digest s = (ret, s') \<and> snd (snd ret) \<noteq> None \<longrightarrow>
      fst ret = '''' \<and> fst (snd ret) = - 1 \<and> s' = s
      \<and> (\<forall>tmp s0. TempFile E (ref_path (dir_ref d)) ''dir-put-blob'' s = Inr (tmp, s0) \<longrightarrow> files s' tmp = None))
   \<and> (oci_PutBlob E d' stream digest' s = (ret', s'') \<and> snd (snd ret') \<noteq> None \<longrightarrow>
      fst ret' = '''' \<and> fst (snd ret') = - 1 \<and> files s'' = files s
      \<and> (\<forall>tmp s0. TempFile E (ref_dir (oci_ref d')) ''oci-put-blob'' s = Inr (tmp, s0) \<longrightarrow> files s'' tmp = None))"
  using dir_PutBlob_failed [of E d stream digest s ret s']
    oci_PutBlob_failed [of E d' stream digest' s ret' s'']
  by (auto dest: TempFile_created(1))

theorem PutBlob_failure_returns_witness:
  "dir_PutBlob rename_fails dir_dest (Data ''hello'' EOF) '''' empty_fs
     = (('''', - 1, Some (ExternalError ''rename failed'')), empty_fs)
   \<and> fst (oci_PutBlob rename_fails oci_dest (Data ''hello'' EOF) '''' empty_fs)
     = ('''', - 1, Some (ExternalError ''rename failed''))
   \<and> files (snd (oci_PutBlob rename_fails oci_dest (Data ''hello'' EOF) '''' empty_fs)) = Map.empty
   \<and> files (snd (oci_PutBlob rename_fails oci_dest (Data ''hello'' EOF) '''' empty_fs))
         [''layout'', ''oci-put-blob123456789''] = None"
proof -
  let ?t = "[''d'', ''dir-put-blob123456789'']"
  let ?t' = "[''layout'', ''oci-put-blob123456789'']"
  let ?s0 = "empty_fs\<lparr>files := [?t \<mapsto> \<lparr>contents = [], mode = mode_0600\<rparr>]\<rparr>"
  let ?s0' = "empty_fs\<lparr>files := [?t' \<mapsto> \<lparr>contents = [], mode = mode_0600\<rparr>]\<rparr>"
  obtain ret s' where a: "dir_PutBlob rename_fails dir_dest (Data ''hello'' EOF) '''' empty_fs = (ret, s')"
    by (rule prod.exhaust)
  obtain ret' s'' where b: "oci_PutBlob rename_fails oci_dest (Data ''hello'' EOF) '''' empty_fs = (ret', s'')"
    by (rule prod.exhaust)
  have "snd (snd (fst (dir_PutBlob rename_fails dir_dest (Data ''hello'' EOF) '''' empty_fs)))
          = Some (ExternalError ''rename failed'')"
    "snd (snd (fst (oci_PutBlob rename_fails oci_dest (Data ''hello'' EOF) '''' empty_fs)))
          = Some (ExternalError ''rename failed'')"
    by (simp_all add: run_defs)
  with a b have e: "snd (snd ret) = Some (ExternalError ''rename failed'')"
    "snd (snd ret') = Some (ExternalError ''rename failed'')"
    by simp_all
  have 4: "TempFile rename_fails (ref_dir (oci_ref oci_dest)) ''oci-put-blob'' empty_fs = Inr (?t', ?s0')"
    by (simp add: run_defs)
  note t = PutBlob_failure_returns [of rename_fails dir_dest "Data ''hello'' EOF" "''''" empty_fs ret s'
        oci_dest "''''" ret' s'']
  from t a b e 4 have "files s'' ?t' = None" by blast
  moreover from t a b e have "fst ret = '''' \<and> fst (snd ret) = - 1 \<and> s' = empty_fs"
    "fst ret' = '''' \<and> fst (snd ret') = - 1 \<and> files s'' = files empty_fs"
    by blast+
  ultimately show ?thesis
    using a b e by (auto simp add: empty_fs_def prod_eq_iff)
qed

end
